theory Spec2Isabelle
  imports Complex_Main
begin

chapter \<open>The model\<close>

section \<open>Python values\<close>

text \<open>
  The gateway is written in Python and handles dynamically shaped data: JSON documents
  decoded into dicts, lists, strings and numbers, and library objects read through
  attributes.  One datatype covers them.  A dict keeps its insertion order, so it is an
  association list; an object is its list of data attributes.  A float is the real
  number it denotes: the code only carries floats along and tests them for zero.
\<close>

datatype pyval =
    PNone
  | PBool bool
  | PInt int
  | PFloat real
  | PStr string
  | PList "pyval list"
  | PDict "(string \<times> pyval) list"
  | PObj "(string \<times> pyval) list"

text \<open>The exceptions the modelled code can raise.  \<open>KeyError\<close> carries the missing key.\<close>

datatype py_error =
    KeyError string
  | IndexError
  | AttributeError
  | TypeError
  | ValidationError

subsection \<open>Strings\<close>

text \<open>\<^verbatim>\<open>s.startswith(p)\<close>, \<^verbatim>\<open>sub in s\<close> and \<^verbatim>\<open>s.lower()\<close>.  Strings are byte strings here, and
  \<open>lower\<close> maps the letters \<^verbatim>\<open>A\<close> to \<^verbatim>\<open>Z\<close> only.\<close>

fun startswith :: "string \<Rightarrow> string \<Rightarrow> bool" where
  "startswith s [] = True"
| "startswith [] (p # ps) = False"
| "startswith (c # cs) (p # ps) = (c = p \<and> startswith cs ps)"

fun py_in :: "string \<Rightarrow> string \<Rightarrow> bool" where
  "py_in sub [] = (sub = [])"
| "py_in sub (c # cs) = (startswith (c # cs) sub \<or> py_in sub cs)"

definition lower_char :: "char \<Rightarrow> char" where
  "lower_char c =
     (case map_of (zip ''ABCDEFGHIJKLMNOPQRSTUVWXYZ'' ''abcdefghijklmnopqrstuvwxyz'') c of
        None \<Rightarrow> c
      | Some l \<Rightarrow> l)"

definition lower :: "string \<Rightarrow> string" where
  "lower s = map lower_char s"

subsection \<open>Dicts\<close>

text \<open>\<^verbatim>\<open>k in d\<close>, \<^verbatim>\<open>d.get(k)\<close>, \<^verbatim>\<open>d.pop(k, None)\<close> and \<^verbatim>\<open>d[k] = v\<close> on an insertion-ordered dict.\<close>

definition dict_has :: "(string \<times> 'v) list \<Rightarrow> string \<Rightarrow> bool" where
  "dict_has d k = (k \<in> fst ` set d)"

definition dict_get :: "(string \<times> 'v) list \<Rightarrow> string \<Rightarrow> 'v option" where
  "dict_get d k = map_of d k"

definition dict_pop :: "string \<Rightarrow> (string \<times> 'v) list \<Rightarrow> (string \<times> 'v) list" where
  "dict_pop k d = filter (\<lambda>kv. fst kv \<noteq> k) d"

fun dict_set :: "string \<Rightarrow> 'v \<Rightarrow> (string \<times> 'v) list \<Rightarrow> (string \<times> 'v) list" where
  "dict_set k v [] = [(k, v)]"
| "dict_set k v (kv # d) = (if fst kv = k then (k, v) # d else kv # dict_set k v d)"

text \<open>\<^verbatim>\<open>d[k]\<close>, which raises \<^verbatim>\<open>KeyError\<close> on a missing key.\<close>

definition dict_item :: "(string \<times> 'v) list \<Rightarrow> string \<Rightarrow> py_error + 'v" where
  "dict_item d k = (case map_of d k of None \<Rightarrow> Inl (KeyError k) | Some v \<Rightarrow> Inr v)"

text \<open>Python's \<^verbatim>\<open>xs[-n:]\<close>: the last \<open>n\<close> elements, and the whole list when \<open>n = 0\<close>
  (then the slice is \<^verbatim>\<open>xs[0:]\<close>) or when the list is shorter than \<open>n\<close>.\<close>

definition py_slice_last :: "nat \<Rightarrow> 'a list \<Rightarrow> 'a list" where
  "py_slice_last n xs = (if n = 0 then xs else drop (length xs - n) xs)"

section \<open>config.py: ConfigManager\<close>

text \<open>\<^verbatim>\<open>ProviderConfig\<close>; \<open>api_key\<close> is the key found in the environment, if any.\<close>

record provider_config =
  pc_name :: string
  base_url :: string
  api_key_env :: string
  api_format :: string
  endpoint :: string
  api_key :: "string option"
  models :: "string list"

text \<open>\<^verbatim>\<open>is_available\<close> is \<^verbatim>\<open>bool(self.api_key)\<close>: a missing or empty key is no key.\<close>

definition is_available :: "provider_config \<Rightarrow> bool" where
  "is_available p = (case api_key p of None \<Rightarrow> False | Some k \<Rightarrow> k \<noteq> [])"

text \<open>An entry of the \<^verbatim>\<open>presets\<close> table of \<^verbatim>\<open>providers.json\<close>, with the fields the code reads.\<close>

record preset =
  preset_name :: string
  preset_big_model :: string
  preset_small_model :: string

record current_config =
  proxy_enabled :: bool
  big_model :: "string option"
  small_model :: "string option"
  current_preset :: "string option"

record log_entry =
  timestamp :: string
  log_type :: string
  log_message :: string
  details :: pyval

text \<open>The state of a \<^verbatim>\<open>ConfigManager\<close>.  The conversation recorder (a file writer) is
  left out: no modelled operation reads it.\<close>

record config_manager =
  providers :: "(string \<times> provider_config) list"
  presets :: "(string \<times> preset) list"
  debug_logs :: "log_entry list"
  max_debug_logs :: nat
  config :: current_config

fun find_model_provider :: "(string \<times> provider_config) list \<Rightarrow> string \<Rightarrow> string option" where
  "find_model_provider [] model_name = None"
| "find_model_provider ((provider_name, provider) # ps) model_name =
     (if model_name \<in> set (models provider) then Some provider_name
      else find_model_provider ps model_name)"

text \<open>\<^verbatim>\<open>validate_model\<close>: \<^verbatim>\<open>not provider_name\<close> also rejects a provider whose name is
  the empty string.\<close>

definition validate_model :: "config_manager \<Rightarrow> string \<Rightarrow> bool" where
  "validate_model cm model_name =
     (case find_model_provider (providers cm) model_name of
        None \<Rightarrow> False
      | Some provider_name \<Rightarrow>
          if provider_name = [] then False
          else (case dict_get (providers cm) provider_name of
                  None \<Rightarrow> False
                | Some p \<Rightarrow> is_available p))"

text \<open>\<^verbatim>\<open>add_debug_log\<close>.  The time stamp is read from the clock and is a parameter;
  \<^verbatim>\<open>details or {}\<close> turns a missing value into an empty dict.\<close>

definition details_or_empty :: "pyval option \<Rightarrow> pyval" where
  "details_or_empty d = (case d of None \<Rightarrow> PDict [] | Some PNone \<Rightarrow> PDict [] | Some v \<Rightarrow> v)"

definition add_debug_log ::
  "string \<Rightarrow> string \<Rightarrow> string \<Rightarrow> pyval option \<Rightarrow> config_manager \<Rightarrow> config_manager" where
  "add_debug_log now ty msg d cm =
     (let entry = \<lparr>timestamp = now, log_type = ty, log_message = msg,
                   details = details_or_empty d\<rparr>;
          logs = debug_logs cm @ [entry]
      in if length logs > max_debug_logs cm
         then cm\<lparr>debug_logs := py_slice_last (max_debug_logs cm) logs\<rparr>
         else cm\<lparr>debug_logs := logs\<rparr>)"

definition clear_debug_logs :: "config_manager \<Rightarrow> config_manager" where
  "clear_debug_logs cm = cm\<lparr>debug_logs := []\<rparr>"

definition opt_val :: "string option \<Rightarrow> pyval" where
  "opt_val x = (case x of None \<Rightarrow> PNone | Some s \<Rightarrow> PStr s)"

text \<open>\<^verbatim>\<open>_load_default_preset\<close> and \<^verbatim>\<open>__init__\<close>; the two tables are what
  \<^verbatim>\<open>load_providers_config\<close> read from the file.\<close>

definition load_default_preset :: "config_manager \<Rightarrow> config_manager" where
  "load_default_preset cm =
     (case dict_get (presets cm) ''default'' of
        None \<Rightarrow> cm
      | Some p \<Rightarrow>
          if validate_model cm (preset_big_model p) \<and> validate_model cm (preset_small_model p)
          then cm\<lparr>config := (config cm)\<lparr>big_model := Some (preset_big_model p),
                                           small_model := Some (preset_small_model p),
                                           current_preset := Some ''default''\<rparr>\<rparr>
          else cm)"

definition ConfigManager_init ::
  "(string \<times> provider_config) list \<Rightarrow> (string \<times> preset) list \<Rightarrow> config_manager" where
  "ConfigManager_init provs pres =
     load_default_preset
       \<lparr>providers = provs, presets = pres, debug_logs = [], max_debug_logs = 50,
        config = \<lparr>proxy_enabled = True, big_model = None, small_model = None,
                  current_preset = None\<rparr>\<rparr>"

text \<open>\<^verbatim>\<open>apply_preset\<close> and \<^verbatim>\<open>set_models\<close>, each with its result flag.\<close>

definition apply_preset :: "string \<Rightarrow> string \<Rightarrow> config_manager \<Rightarrow> bool \<times> config_manager" where
  "apply_preset now nm cm =
     (case dict_get (presets cm) nm of
        None \<Rightarrow> (False, cm)
      | Some p \<Rightarrow>
          if \<not> validate_model cm (preset_big_model p) then (False, cm)
          else if \<not> validate_model cm (preset_small_model p) then (False, cm)
          else
            (let old_config = config cm;
                 cm' = cm\<lparr>config := (config cm)\<lparr>big_model := Some (preset_big_model p),
                                                  small_model := Some (preset_small_model p),
                                                  current_preset := Some nm\<rparr>\<rparr>
             in (True,
                 add_debug_log now ''config'' (''Applied preset: '' @ nm)
                   (Some (PDict [(''preset_name'', PStr nm),
                                 (''old_big_model'', opt_val (big_model old_config)),
                                 (''old_small_model'', opt_val (small_model old_config)),
                                 (''new_big_model'', PStr (preset_big_model p)),
                                 (''new_small_model'', PStr (preset_small_model p))]))
                   cm')))"

definition set_models :: "string \<Rightarrow> string \<Rightarrow> string \<Rightarrow> config_manager \<Rightarrow> bool \<times> config_manager" where
  "set_models now big small cm =
     (if \<not> validate_model cm big \<or> \<not> validate_model cm small then (False, cm)
      else
        (let old_config = config cm;
             cm' = cm\<lparr>config := (config cm)\<lparr>big_model := Some big, small_model := Some small,
                                              current_preset := None\<rparr>\<rparr>
         in (True,
             add_debug_log now ''config'' ''Manual model configuration''
               (Some (PDict [(''old_big_model'', opt_val (big_model old_config)),
                             (''old_small_model'', opt_val (small_model old_config)),
                             (''new_big_model'', PStr big),
                             (''new_small_model'', PStr small)]))
               cm')))"

definition toggle_proxy :: "config_manager \<Rightarrow> bool \<times> config_manager" where
  "toggle_proxy cm =
     (let cm' = cm\<lparr>config := (config cm)\<lparr>proxy_enabled := \<not> proxy_enabled (config cm)\<rparr>\<rparr>
      in (proxy_enabled (config cm'), cm'))"

text \<open>\<^verbatim>\<open>get_status\<close>: the dict it builds, key by key.\<close>

definition get_available_providers ::
  "config_manager \<Rightarrow> (string \<times> provider_config) list" where
  "get_available_providers cm = filter (\<lambda>kv. is_available (snd kv)) (providers cm)"

definition get_status :: "config_manager \<Rightarrow> (string \<times> pyval) list" where
  "get_status cm =
     [(''proxy_enabled'', PBool (proxy_enabled (config cm))),
      (''big_model'', opt_val (big_model (config cm))),
      (''small_model'', opt_val (small_model (config cm))),
      (''current_preset'', opt_val (current_preset (config cm))),
      (''available_providers'', PList (map (\<lambda>kv. PStr (fst kv)) (get_available_providers cm))),
      (''total_models'',
         PInt (int (sum_list (map (\<lambda>kv. length (models (snd kv))) (providers cm))))),
      (''available_models'',
         PInt (int (sum_list (map (\<lambda>kv. length (models (snd kv))) (get_available_providers cm)))))]"

text \<open>The calls that touch the debug log, as one step function: the public methods of
  the manager and the logging calls of the server (every one of them goes through
  \<open>add_debug_log\<close>).\<close>

datatype config_call =
    AddDebugLog string string string "pyval option"
  | ClearDebugLogs
  | ApplyPreset string string
  | SetModels string string string
  | ToggleProxy

fun invoke :: "config_manager \<Rightarrow> config_call \<Rightarrow> config_manager" where
  "invoke cm (AddDebugLog now ty msg d) = add_debug_log now ty msg d cm"
| "invoke cm ClearDebugLogs = clear_debug_logs cm"
| "invoke cm (ApplyPreset now nm) = snd (apply_preset now nm cm)"
| "invoke cm (SetModels now big small) = snd (set_models now big small cm)"
| "invoke cm ToggleProxy = snd (toggle_proxy cm)"

text \<open>The bound on the store: the limit is the one set at initialisation and the list
  is no longer than it.\<close>

definition logs_bounded :: "config_manager \<Rightarrow> bool" where
  "logs_bounded cm = (max_debug_logs cm = 50 \<and> length (debug_logs cm) \<le> 50)"

section \<open>server.py: the model router\<close>

text \<open>The model lists of \<^verbatim>\<open>server.py\<close>.\<close>

definition OPENAI_MODELS :: "string list" where
  "OPENAI_MODELS =
     [''o3-mini'', ''o1'', ''o1-mini'', ''o1-pro'', ''o1-preview'',
      ''gpt-4o'', ''gpt-4o-2024-11-20'', ''gpt-4o-2024-08-06'', ''gpt-4o-2024-05-13'',
      ''gpt-4o-mini'', ''gpt-4o-mini-2024-07-18'', ''gpt-4o-audio-preview'',
      ''gpt-4o-realtime-preview'', ''chatgpt-4o-latest'',
      ''gpt-4-turbo'', ''gpt-4-turbo-2024-04-09'', ''gpt-4-turbo-preview'',
      ''gpt-4-0125-preview'', ''gpt-4-1106-preview'',
      ''gpt-4'', ''gpt-4-0613'', ''gpt-4-0314'',
      ''gpt-3.5-turbo'', ''gpt-3.5-turbo-0125'', ''gpt-3.5-turbo-1106'', ''gpt-3.5-turbo-16k'',
      ''gpt-4.5-preview'', ''gpt-4.1'', ''gpt-4.1-mini'', ''gpt-4o-mini-audio-preview'']"

definition GEMINI_MODELS :: "string list" where
  "GEMINI_MODELS =
     [''gemini-2.0-flash-exp'', ''gemini-2.0-flash-thinking-exp'', ''gemini-2.0-flash'',
      ''gemini-1.5-pro'', ''gemini-1.5-pro-002'', ''gemini-1.5-pro-001'',
      ''gemini-1.5-pro-exp-0827'', ''gemini-1.5-flash'', ''gemini-1.5-flash-002'',
      ''gemini-1.5-flash-001'', ''gemini-1.5-flash-8b'',
      ''gemini-1.0-pro'', ''gemini-1.0-pro-001'', ''gemini-1.0-pro-latest'',
      ''gemini-exp-1114'', ''gemini-exp-1121'',
      ''gemini-2.5-flash'', ''gemini-2.5-pro'']"

definition ANTHROPIC_MODELS :: "string list" where
  "ANTHROPIC_MODELS =
     [''claude-3-5-sonnet-20241022'', ''claude-3-5-sonnet-20240620'',
      ''claude-3-5-haiku-20241022'',
      ''claude-3-opus-20240229'', ''claude-3-sonnet-20240229'', ''claude-3-haiku-20240307'',
      ''claude-2.1'', ''claude-2.0'', ''claude-instant-1.2'']"

text \<open>The prefix removal at the head of \<^verbatim>\<open>validate_model_field\<close>: the first prefix that
  matches is cut, in the order of the source.\<close>

definition clean_model_name :: "string \<Rightarrow> string" where
  "clean_model_name v =
     (if startswith v ''anthropic/'' then drop 10 v
      else if startswith v ''openai/'' then drop 7 v
      else if startswith v ''gemini/'' then drop 7 v
      else v)"

text \<open>
  \<^verbatim>\<open>MessagesRequest.validate_model_field\<close>.  Its first argument is the dict that
  \<^verbatim>\<open>global_config.get_status()\<close> returned; the three alias entries are read with
  \<^verbatim>\<open>current_config[...]\<close>, which raises \<^verbatim>\<open>KeyError\<close> on a missing key, before anything
  else happens.  The result is the new value of the \<^verbatim>\<open>model\<close> field: an alias entry is
  returned as it is, \<open>PNone\<close> when the alias is unset.
\<close>

definition validate_model_field :: "(string \<times> pyval) list \<Rightarrow> string \<Rightarrow> py_error + pyval" where
  "validate_model_field current v =
     (case dict_item current ''super_model'' of
        Inl e \<Rightarrow> Inl e
      | Inr super_model \<Rightarrow>
     (case dict_item current ''big_model'' of
        Inl e \<Rightarrow> Inl e
      | Inr big \<Rightarrow>
     (case dict_item current ''small_model'' of
        Inl e \<Rightarrow> Inl e
      | Inr small \<Rightarrow>
          (let clean_v = clean_model_name v in
           if py_in ''opus'' (lower clean_v) then Inr super_model
           else if py_in ''haiku'' (lower clean_v) then Inr small
           else if py_in ''sonnet'' (lower clean_v) then Inr big
           else if clean_v \<in> set ANTHROPIC_MODELS \<and> \<not> startswith v ''anthropic/''
             then Inr (PStr (''anthropic/'' @ clean_v))
           else if clean_v \<in> set GEMINI_MODELS \<and> \<not> startswith v ''gemini/''
             then Inr (PStr (''gemini/'' @ clean_v))
           else if clean_v \<in> set OPENAI_MODELS \<and> \<not> startswith v ''openai/''
             then Inr (PStr (''openai/'' @ clean_v))
           else Inr (PStr v)))))"

text \<open>The validator as the server runs it: on the status of the global manager.\<close>

definition route_model :: "config_manager \<Rightarrow> string \<Rightarrow> py_error + pyval" where
  "route_model cm v = validate_model_field (get_status cm) v"

section \<open>server.py: the Gemini schema cleaner\<close>

text \<open>Lists and dicts are unhashable: testing one for membership in a \<^verbatim>\<open>set\<close> raises
  \<^verbatim>\<open>TypeError\<close>.\<close>

fun py_hashable :: "pyval \<Rightarrow> bool" where
  "py_hashable (PList xs) = False"
| "py_hashable (PDict d) = False"
| "py_hashable v = True"

lemma size_list_dict_pop:
  "size_list f (dict_pop k d) \<le> size_list f d"
  by (induction d) (simp_all add: dict_pop_def)

text \<open>The check of \<^verbatim>\<open>format\<close> in \<^verbatim>\<open>clean_gemini_schema\<close> (lines 401-406), on the dict from
  which \<^verbatim>\<open>additionalProperties\<close> and \<^verbatim>\<open>default\<close> are already popped.
  \<^verbatim>\<open>schema["format"] not in allowed_formats\<close> hashes the value first.\<close>

definition pop_format :: "(string \<times> pyval) list \<Rightarrow> py_error + (string \<times> pyval) list" where
  "pop_format d =
     (if dict_get d ''type'' = Some (PStr ''string'') \<and> dict_has d ''format'' then
        (case dict_get d ''format'' of
           None \<Rightarrow> Inr d
         | Some f \<Rightarrow>
             if \<not> py_hashable f then Inl TypeError
             else if f \<noteq> PStr ''enum'' \<and> f \<noteq> PStr ''date-time'' then Inr (dict_pop ''format'' d)
             else Inr d)
      else Inr d)"

lemma pop_format_size:
  "pop_format d = Inr d' \<Longrightarrow> size_list f d' \<le> size_list f d"
  using size_list_dict_pop[of f "''format''" d]
  by (auto simp: pop_format_def split: if_splits option.splits)

text \<open>\<^verbatim>\<open>clean_gemini_schema\<close>.  The loop over \<^verbatim>\<open>list(schema.items())\<close> is \<open>clean_items\<close>, the
  list comprehension is \<open>clean_elems\<close>; the first exception ends the call.\<close>

function clean_gemini_schema :: "pyval \<Rightarrow> py_error + pyval"
  and clean_items :: "(string \<times> pyval) list \<Rightarrow> py_error + (string \<times> pyval) list"
  and clean_elems :: "pyval list \<Rightarrow> py_error + pyval list"
where
  "clean_gemini_schema (PDict d) =
     (case pop_format (dict_pop ''default'' (dict_pop ''additionalProperties'' d)) of
        Inl e \<Rightarrow> Inl e
      | Inr d' \<Rightarrow> (case clean_items d' of Inl e \<Rightarrow> Inl e | Inr r \<Rightarrow> Inr (PDict r)))"
| "clean_gemini_schema (PList xs) =
     (case clean_elems xs of Inl e \<Rightarrow> Inl e | Inr r \<Rightarrow> Inr (PList r))"
| "clean_gemini_schema PNone = Inr PNone"
| "clean_gemini_schema (PBool b) = Inr (PBool b)"
| "clean_gemini_schema (PInt n) = Inr (PInt n)"
| "clean_gemini_schema (PFloat x) = Inr (PFloat x)"
| "clean_gemini_schema (PStr s) = Inr (PStr s)"
| "clean_gemini_schema (PObj a) = Inr (PObj a)"
| "clean_items [] = Inr []"
| "clean_items (kv # kvs) =
     (case clean_gemini_schema (snd kv) of
        Inl e \<Rightarrow> Inl e
      | Inr v' \<Rightarrow> (case clean_items kvs of Inl e \<Rightarrow> Inl e | Inr r \<Rightarrow> Inr ((fst kv, v') # r)))"
| "clean_elems [] = Inr []"
| "clean_elems (x # xs) =
     (case clean_gemini_schema x of
        Inl e \<Rightarrow> Inl e
      | Inr x' \<Rightarrow> (case clean_elems xs of Inl e \<Rightarrow> Inl e | Inr r \<Rightarrow> Inr (x' # r)))"
  by pat_completeness auto
termination
proof (relation "measure (\<lambda>x. case x of
             Inl v \<Rightarrow> 2 * size v
           | Inr (Inl kvs) \<Rightarrow> 2 * size_list (size_prod (\<lambda>x. 0) size) kvs + 1
           | Inr (Inr xs) \<Rightarrow> 2 * size_list size xs + 1)", goal_cases)
  case (2 d b)
  have "size_list (size_prod (\<lambda>x. 0) size) b
        \<le> size_list (size_prod (\<lambda>x. 0) size)
             (dict_pop ''default'' (dict_pop ''additionalProperties'' d))"
    using 2 by (rule pop_format_size)
  also have "\<dots> \<le> size_list (size_prod (\<lambda>x. 0) size) (dict_pop ''additionalProperties'' d)"
    by (rule size_list_dict_pop)
  also have "\<dots> \<le> size_list (size_prod (\<lambda>x. 0) size) d"
    by (rule size_list_dict_pop)
  finally show ?case by simp
next
  case (4 kv kvs)
  then show ?case by (cases kv) simp
qed simp_all

subsection \<open>Truth values and library functions\<close>

text \<open>\<^verbatim>\<open>bool(v)\<close>; an object without \<^verbatim>\<open>__bool__\<close> and \<^verbatim>\<open>__len__\<close> is true.\<close>

fun py_truthy :: "pyval \<Rightarrow> bool" where
  "py_truthy PNone = False"
| "py_truthy (PBool b) = b"
| "py_truthy (PInt n) = (n \<noteq> 0)"
| "py_truthy (PFloat x) = (x \<noteq> 0)"
| "py_truthy (PStr s) = (s \<noteq> [])"
| "py_truthy (PList xs) = (xs \<noteq> [])"
| "py_truthy (PDict d) = (d \<noteq> [])"
| "py_truthy (PObj a) = True"

text \<open>
  What the code takes from libraries and from the runtime, as parameters of the model:
  \<^verbatim>\<open>json.dumps\<close> (\<open>None\<close>: the value is not serialisable, a \<^verbatim>\<open>TypeError\<close>),
  \<^verbatim>\<open>json.loads\<close> (\<open>None\<close>: a \<^verbatim>\<open>JSONDecodeError\<close>), \<^verbatim>\<open>str(v)\<close>, the text \<^verbatim>\<open>str(e)\<close> of an
  exception, the coercion pydantic applies to an \<^verbatim>\<open>int\<close> field (\<open>None\<close>: the value is
  refused), and the identifiers \<^verbatim>\<open>uuid.uuid4()\<close> draws, numbered in the order of the draws.
\<close>

record pylib =
  json_dumps :: "pyval \<Rightarrow> string option"
  json_loads :: "string \<Rightarrow> pyval option"
  py_str :: "pyval \<Rightarrow> string"
  exc_str :: "py_error \<Rightarrow> string"
  coerce_int :: "pyval \<Rightarrow> int option"
  uuid4 :: "nat \<Rightarrow> string"

text \<open>\<^verbatim>\<open>s.strip()\<close> and \<^verbatim>\<open>sep.join(parts)\<close>; the white space is the ASCII one.\<close>

definition nl :: string where
  "nl = [CHR 0x0A]"

definition is_space :: "char \<Rightarrow> bool" where
  "is_space c = (c \<in> set [CHR 0x20, CHR 0x09, CHR 0x0A, CHR 0x0B, CHR 0x0C, CHR 0x0D,
                            CHR 0x1C, CHR 0x1D, CHR 0x1E, CHR 0x1F])"

definition py_strip :: "string \<Rightarrow> string" where
  "py_strip s = rev (dropWhile is_space (rev (dropWhile is_space s)))"

fun py_join :: "string \<Rightarrow> string list \<Rightarrow> string" where
  "py_join sep [] = []"
| "py_join sep [x] = x"
| "py_join sep (x # y # ys) = x @ sep @ py_join sep (y # ys)"

section \<open>server.py: the request translator\<close>

text \<open>The pydantic models of the inbound request.  A content block is one of the four
  classes of the \<^verbatim>\<open>Message.content\<close> union; a block of any other type does not pass
  validation, so the branches of the translator on \<^verbatim>\<open>thinking\<close> blocks are never taken.\<close>

datatype content_block =
    ContentBlockText string
  | ContentBlockImage "(string \<times> pyval) list"
  | ContentBlockToolUse string string "(string \<times> pyval) list"
  | ContentBlockToolResult string pyval

datatype role = User | Assistant

record message =
  msg_role :: role
  msg_content :: "string + content_block list"

record tool =
  tool_name :: string
  description :: "string option"
  input_schema :: "(string \<times> pyval) list"

text \<open>\<^verbatim>\<open>MessagesRequest\<close>.  \<open>system\<close> is a string or a list of \<^verbatim>\<open>SystemContent\<close> blocks (each of
  type \<^verbatim>\<open>text\<close>, kept as its text); \<open>thinking\<close> is the \<^verbatim>\<open>enabled\<close> flag of a
  \<^verbatim>\<open>ThinkingConfig\<close>; the floats are carried as values.\<close>

record messages_request =
  model :: string
  max_tokens :: int
  messages :: "message list"
  system :: "(string + string list) option"
  stop_sequences :: "string list option"
  stream :: "bool option"
  temperature :: pyval
  top_p :: pyval
  top_k :: "int option"
  tools :: "tool list option"
  tool_choice :: "(string \<times> pyval) list option"
  thinking :: "bool option"
  original_model :: "string option"

definition role_str :: "role \<Rightarrow> string" where
  "role_str r = (case r of User \<Rightarrow> ''user'' | Assistant \<Rightarrow> ''assistant'')"

fun block_type :: "content_block \<Rightarrow> string" where
  "block_type (ContentBlockText t) = ''text''"
| "block_type (ContentBlockImage src) = ''image''"
| "block_type (ContentBlockToolUse i n inp) = ''tool_use''"
| "block_type (ContentBlockToolResult i c) = ''tool_result''"

subsection \<open>parse_tool_result_content\<close>

text \<open>\<^verbatim>\<open>try: json.dumps(item) except: str(item)\<close>.\<close>

definition dumps_or_str :: "pylib \<Rightarrow> pyval \<Rightarrow> string" where
  "dumps_or_str L v = (case json_dumps L v of None \<Rightarrow> py_str L v | Some s \<Rightarrow> s)"

text \<open>\<^verbatim>\<open>item.get("text", "") + "\n"\<close>: the sum raises \<^verbatim>\<open>TypeError\<close> unless the entry is a
  string.\<close>

definition item_text :: "(string \<times> pyval) list \<Rightarrow> py_error + string" where
  "item_text d =
     (case dict_get d ''text'' of
        None \<Rightarrow> Inr nl
      | Some (PStr t) \<Rightarrow> Inr (t @ nl)
      | Some _ \<Rightarrow> Inl TypeError)"

text \<open>The loop over a list content, with the text collected so far.\<close>

fun parse_items :: "pylib \<Rightarrow> pyval list \<Rightarrow> string \<Rightarrow> py_error + string" where
  "parse_items L [] result = Inr result"
| "parse_items L (PDict d # items) result =
     (if dict_get d ''type'' = Some (PStr ''text'') \<or> dict_has d ''text''
      then (case item_text d of
              Inl e \<Rightarrow> Inl e
            | Inr t \<Rightarrow> parse_items L items (result @ t))
      else parse_items L items (result @ dumps_or_str L (PDict d) @ nl))"
| "parse_items L (PStr s # items) result = parse_items L items (result @ s @ nl)"
| "parse_items L (item # items) result = parse_items L items (result @ py_str L item @ nl)"

fun parse_tool_result_content :: "pylib \<Rightarrow> pyval \<Rightarrow> py_error + pyval" where
  "parse_tool_result_content L PNone = Inr (PStr ''No content provided'')"
| "parse_tool_result_content L (PStr s) = Inr (PStr s)"
| "parse_tool_result_content L (PList items) =
     (case parse_items L items [] of
        Inl e \<Rightarrow> Inl e
      | Inr result \<Rightarrow> Inr (PStr (py_strip result)))"
| "parse_tool_result_content L (PDict d) =
     (if dict_get d ''type'' = Some (PStr ''text'')
      then Inr (case dict_get d ''text'' of None \<Rightarrow> PStr [] | Some t \<Rightarrow> t)
      else Inr (PStr (dumps_or_str L (PDict d))))"
| "parse_tool_result_content L v = Inr (PStr (py_str L v))"

subsection \<open>convert_anthropic_to_litellm\<close>

text \<open>The system prompt (lines 800-815): the messages it contributes.\<close>

definition system_messages :: "(string + string list) option \<Rightarrow> pyval list" where
  "system_messages sys =
     (case sys of
        None \<Rightarrow> []
      | Some (Inl s) \<Rightarrow>
          if s = [] then [] else [PDict [(''role'', PStr ''system''), (''content'', PStr s)]]
      | Some (Inr blocks) \<Rightarrow>
          (let system_text = concat (map (\<lambda>t. t @ nl @ nl) blocks)
           in if system_text = [] then []
              else [PDict [(''role'', PStr ''system''), (''content'', PStr (py_strip system_text))]]))"

text \<open>A user message with a \<^verbatim>\<open>tool_result\<close> block (lines 828-842): one \<^verbatim>\<open>tool\<close> message per
  result, one \<^verbatim>\<open>user\<close> message per text block that is not blank, nothing for the rest.\<close>

fun tool_result_messages :: "pylib \<Rightarrow> content_block list \<Rightarrow> py_error + pyval list" where
  "tool_result_messages L [] = Inr []"
| "tool_result_messages L (ContentBlockToolResult tool_use_id c # blocks) =
     (case parse_tool_result_content L c of
        Inl e \<Rightarrow> Inl e
      | Inr parsed \<Rightarrow>
          (case tool_result_messages L blocks of
             Inl e \<Rightarrow> Inl e
           | Inr ms \<Rightarrow>
               Inr (PDict [(''role'', PStr ''tool''), (''tool_call_id'', PStr tool_use_id),
                           (''content'', parsed)] # ms)))"
| "tool_result_messages L (ContentBlockText t # blocks) =
     (case tool_result_messages L blocks of
        Inl e \<Rightarrow> Inl e
      | Inr ms \<Rightarrow>
          if py_strip t \<noteq> [] then Inr (PDict [(''role'', PStr ''user''), (''content'', PStr t)] # ms)
          else Inr ms)"
| "tool_result_messages L (b # blocks) = tool_result_messages L blocks"

text \<open>An assistant message with a \<^verbatim>\<open>tool_use\<close> block (lines 845-876): the tool calls and
  the text parts, then the one message built from them.\<close>

fun assistant_tool_calls :: "pylib \<Rightarrow> content_block list \<Rightarrow> py_error + pyval list" where
  "assistant_tool_calls L [] = Inr []"
| "assistant_tool_calls L (ContentBlockToolUse i n inp # blocks) =
     (case json_dumps L (PDict inp) of
        None \<Rightarrow> Inl TypeError
      | Some arguments_str \<Rightarrow>
          (case assistant_tool_calls L blocks of
             Inl e \<Rightarrow> Inl e
           | Inr cs \<Rightarrow>
               Inr (PDict [(''id'', PStr i), (''type'', PStr ''function''),
                           (''function'', PDict [(''name'', PStr n),
                                                 (''arguments'', PStr arguments_str)])] # cs)))"
| "assistant_tool_calls L (b # blocks) = assistant_tool_calls L blocks"

fun assistant_text_parts :: "content_block list \<Rightarrow> string list" where
  "assistant_text_parts [] = []"
| "assistant_text_parts (ContentBlockText t # blocks) = t # assistant_text_parts blocks"
| "assistant_text_parts (b # blocks) = assistant_text_parts blocks"

definition assistant_message :: "pylib \<Rightarrow> content_block list \<Rightarrow> py_error + pyval" where
  "assistant_message L blocks =
     (case assistant_tool_calls L blocks of
        Inl e \<Rightarrow> Inl e
      | Inr tool_calls \<Rightarrow>
          (let text = py_strip (py_join '' '' (assistant_text_parts blocks))
           in if text = []
              then Inr (PDict [(''role'', PStr ''assistant''), (''tool_calls'', PList tool_calls)])
              else Inr (PDict [(''role'', PStr ''assistant''), (''content'', PStr text),
                               (''tool_calls'', PList tool_calls)])))"

text \<open>Any other list content (lines 879-893): text and image blocks are kept, in order.\<close>

fun processed_content :: "content_block list \<Rightarrow> pyval list" where
  "processed_content [] = []"
| "processed_content (ContentBlockText t # blocks) =
     PDict [(''type'', PStr ''text''), (''text'', PStr t)] # processed_content blocks"
| "processed_content (ContentBlockImage src # blocks) =
     PDict [(''type'', PStr ''image''), (''source'', PDict src)] # processed_content blocks"
| "processed_content (b # blocks) = processed_content blocks"

text \<open>The body of the loop over \<^verbatim>\<open>anthropic_request.messages\<close>: the backend messages one
  message turns into.\<close>

definition convert_message :: "pylib \<Rightarrow> message \<Rightarrow> py_error + pyval list" where
  "convert_message L msg =
     (case msg_content msg of
        Inl text \<Rightarrow> Inr [PDict [(''role'', PStr (role_str (msg_role msg))), (''content'', PStr text)]]
      | Inr blocks \<Rightarrow>
          (let is_tool_result_message = (''tool_result'' \<in> set (map block_type blocks));
               is_tool_use_message = (''tool_use'' \<in> set (map block_type blocks))
           in if msg_role msg = User \<and> is_tool_result_message
                then tool_result_messages L blocks
              else if msg_role msg = Assistant \<and> is_tool_use_message
                then (case assistant_message L blocks of Inl e \<Rightarrow> Inl e | Inr m \<Rightarrow> Inr [m])
              else Inr [PDict [(''role'', PStr (role_str (msg_role msg))),
                               (''content'', PList (processed_content blocks))]]))"

fun convert_messages :: "pylib \<Rightarrow> message list \<Rightarrow> py_error + pyval list" where
  "convert_messages L [] = Inr []"
| "convert_messages L (msg # msgs) =
     (case convert_message L msg of
        Inl e \<Rightarrow> Inl e
      | Inr ms \<Rightarrow>
          (case convert_messages L msgs of Inl e \<Rightarrow> Inl e | Inr rest \<Rightarrow> Inr (ms @ rest)))"

text \<open>The tool definitions (lines 929-970).  \<^verbatim>\<open>tool.dict()\<close> has the three fields of the
  model, so \<^verbatim>\<open>input_schema\<close> is a dict and only its two keys are looked for.\<close>

definition convert_tool :: "bool \<Rightarrow> tool \<Rightarrow> py_error + pyval" where
  "convert_tool is_gemini_model t =
     (let schema0 = (if \<not> dict_has (input_schema t) ''type''
                        \<or> \<not> dict_has (input_schema t) ''properties''
                     then PDict [(''type'', PStr ''object''), (''properties'', PDict [])]
                     else PDict (input_schema t));
          cleaned = (if is_gemini_model then clean_gemini_schema schema0 else Inr schema0)
      in case cleaned of
           Inl e \<Rightarrow> Inl e
         | Inr parameters \<Rightarrow>
             Inr (PDict [(''type'', PStr ''function''),
                         (''function'', PDict [(''name'', PStr (tool_name t)),
                                               (''description'', opt_val (description t)),
                                               (''parameters'', parameters)])]))"

fun convert_tools :: "bool \<Rightarrow> tool list \<Rightarrow> py_error + pyval list" where
  "convert_tools g [] = Inr []"
| "convert_tools g (t # ts) =
     (case convert_tool g t of
        Inl e \<Rightarrow> Inl e
      | Inr x \<Rightarrow> (case convert_tools g ts of Inl e \<Rightarrow> Inl e | Inr xs \<Rightarrow> Inr (x # xs)))"

text \<open>\<^verbatim>\<open>tool_choice\<close> (lines 973-992).\<close>

definition convert_tool_choice :: "(string \<times> pyval) list \<Rightarrow> pyval" where
  "convert_tool_choice tc =
     (if dict_get tc ''type'' = Some (PStr ''auto'') then PStr ''auto''
      else if dict_get tc ''type'' = Some (PStr ''any'') then PStr ''any''
      else if dict_get tc ''type'' = Some (PStr ''tool'') \<and> dict_has tc ''name''
        then (case dict_get tc ''name'' of
                None \<Rightarrow> PStr ''auto''
              | Some n \<Rightarrow> PDict [(''type'', PStr ''function''),
                                  (''function'', PDict [(''name'', n)])])
      else PStr ''auto'')"

text \<open>The cap of lines 899-903.\<close>

definition capped_max_tokens :: "messages_request \<Rightarrow> int" where
  "capped_max_tokens request =
     (if startswith (model request) ''openai/'' \<or> startswith (model request) ''gemini/''
      then min (max_tokens request) 16384
      else max_tokens request)"

text \<open>The optional entries, each appended to the request dict when its guard holds.\<close>

definition optional_entries :: "messages_request \<Rightarrow> (string \<times> pyval) list" where
  "optional_entries request =
     (case thinking request of
        None \<Rightarrow> []
      | Some enabled \<Rightarrow>
          if startswith (model request) ''anthropic/''
          then [(''thinking'', PObj [(''enabled'', PBool enabled)])] else [])
     @ (case stop_sequences request of
          None \<Rightarrow> []
        | Some ss \<Rightarrow> if ss = [] then [] else [(''stop'', PList (map PStr ss))])
     @ (if py_truthy (top_p request) then [(''top_p'', top_p request)] else [])
     @ (case top_k request of
          None \<Rightarrow> []
        | Some k \<Rightarrow> if k = 0 then [] else [(''top_k'', PInt k)])"

definition stream_val :: "bool option \<Rightarrow> pyval" where
  "stream_val b = (case b of None \<Rightarrow> PNone | Some x \<Rightarrow> PBool x)"

definition convert_anthropic_to_litellm ::
  "pylib \<Rightarrow> messages_request \<Rightarrow> py_error + (string \<times> pyval) list" where
  "convert_anthropic_to_litellm L request =
     (case convert_messages L (messages request) of
        Inl e \<Rightarrow> Inl e
      | Inr ms \<Rightarrow>
          (let litellm_request =
                 [(''model'', PStr (model request)),
                  (''messages'', PList (system_messages (system request) @ ms)),
                  (''max_tokens'', PInt (capped_max_tokens request)),
                  (''temperature'', temperature request),
                  (''stream'', stream_val (stream request))]
                 @ optional_entries request;
               tool_entries =
                 (case tools request of
                    None \<Rightarrow> Inr []
                  | Some ts \<Rightarrow>
                      if ts = [] then Inr []
                      else (case convert_tools (startswith (model request) ''gemini/'') ts of
                              Inl e \<Rightarrow> Inl e
                            | Inr openai_tools \<Rightarrow> Inr [(''tools'', PList openai_tools)]));
               choice_entries =
                 (case tool_choice request of
                    None \<Rightarrow> []
                  | Some tc \<Rightarrow>
                      if tc = [] then [] else [(''tool_choice'', convert_tool_choice tc)])
           in case tool_entries of
                Inl e \<Rightarrow> Inl e
              | Inr te \<Rightarrow> Inr (litellm_request @ te @ choice_entries)))"

subsection \<open>create_message: the choice of the backend\<close>

text \<open>The API keys the server reads from its environment at start.\<close>

record server_env =
  ANTHROPIC_API_KEY :: "string option"
  OPENAI_API_KEY :: "string option"
  GEMINI_API_KEY :: "string option"
  OPENAI_BASE_URL :: "string option"

text \<open>Lines 1777-1805 of \<^verbatim>\<open>create_message\<close>, applied to the dict the translator returned:
  the key, the base URL and the provider prefix of the model are set here, after the
  translation.\<close>

definition select_backend ::
  "server_env \<Rightarrow> config_manager \<Rightarrow> messages_request \<Rightarrow> (string \<times> pyval) list
     \<Rightarrow> (string \<times> pyval) list" where
  "select_backend E cm request litellm_request =
     (let fallback =
            (if startswith (model request) ''openai/'' then
               (let r = dict_set ''api_key'' (opt_val (OPENAI_API_KEY E)) litellm_request
                in case OPENAI_BASE_URL E of
                     None \<Rightarrow> r
                   | Some u \<Rightarrow> if u = [] then r else dict_set ''api_base'' (PStr u) r)
             else if startswith (model request) ''gemini/'' then
               dict_set ''api_key'' (opt_val (GEMINI_API_KEY E)) litellm_request
             else dict_set ''api_key'' (opt_val (ANTHROPIC_API_KEY E)) litellm_request)
      in case find_model_provider (providers cm) (model request) of
           None \<Rightarrow> fallback
         | Some provider_name \<Rightarrow>
             (case dict_get (providers cm) provider_name of
                None \<Rightarrow> fallback
              | Some provider \<Rightarrow>
                  if provider_name = [] then fallback
                  else
                    (let r = dict_set ''api_base'' (PStr (base_url provider))
                               (dict_set ''api_key'' (opt_val (api_key provider)) litellm_request)
                     in if api_format provider = ''openai'' then
                          (if \<not> startswith (model request) ''openai/''
                           then dict_set ''model'' (PStr (''openai/'' @ model request)) r else r)
                        else
                          (if \<not> startswith (model request) (provider_name @ ''/'')
                           then dict_set ''model'' (PStr (provider_name @ ''/'' @ model request)) r
                           else r))))"

text \<open>The request the server hands to the backend client, up to the choice of the
  backend.  (The flattening of message contents for OpenAI models and the time-out entry
  that follow touch neither \<^verbatim>\<open>model\<close> nor \<^verbatim>\<open>max_tokens\<close>.)\<close>

definition backend_request ::
  "pylib \<Rightarrow> server_env \<Rightarrow> config_manager \<Rightarrow> messages_request
     \<Rightarrow> py_error + (string \<times> pyval) list" where
  "backend_request L E cm request =
     (case convert_anthropic_to_litellm L request of
        Inl e \<Rightarrow> Inl e
      | Inr litellm_request \<Rightarrow> Inr (select_backend E cm request litellm_request))"

section \<open>server.py: the response translator\<close>

text \<open>Sequencing of steps that can raise.\<close>

definition ebind :: "'e + 'a \<Rightarrow> ('a \<Rightarrow> 'e + 'b) \<Rightarrow> 'e + 'b" where
  "ebind m f = (case m of Inl e \<Rightarrow> Inl e | Inr x \<Rightarrow> f x)"

subsection \<open>Reading dynamic values\<close>

text \<open>\<^verbatim>\<open>hasattr(v, a)\<close>, \<^verbatim>\<open>v.a\<close>, \<^verbatim>\<open>getattr(v, a, default)\<close> and \<^verbatim>\<open>v.get(k, default)\<close>.  The
  attributes asked for are data attributes, which only objects have; only a dict has
  \<^verbatim>\<open>get\<close>.\<close>

fun py_hasattr :: "pyval \<Rightarrow> string \<Rightarrow> bool" where
  "py_hasattr (PObj a) n = dict_has a n"
| "py_hasattr v n = False"

fun py_getattr :: "pyval \<Rightarrow> string \<Rightarrow> py_error + pyval" where
  "py_getattr (PObj a) n = (case dict_get a n of None \<Rightarrow> Inl AttributeError | Some x \<Rightarrow> Inr x)"
| "py_getattr v n = Inl AttributeError"

fun py_getattr_default :: "pyval \<Rightarrow> string \<Rightarrow> pyval \<Rightarrow> pyval" where
  "py_getattr_default (PObj a) n dflt = (case dict_get a n of None \<Rightarrow> dflt | Some x \<Rightarrow> x)"
| "py_getattr_default v n dflt = dflt"

fun py_get :: "pyval \<Rightarrow> string \<Rightarrow> pyval \<Rightarrow> py_error + pyval" where
  "py_get (PDict d) k dflt = (case dict_get d k of None \<Rightarrow> Inr dflt | Some x \<Rightarrow> Inr x)"
| "py_get v k dflt = Inl AttributeError"

text \<open>\<^verbatim>\<open>choices and len(choices) > 0\<close>: a false value ends the test; \<^verbatim>\<open>len\<close> raises
  \<^verbatim>\<open>TypeError\<close> on a true value that has no length.\<close>

fun py_nonempty :: "pyval \<Rightarrow> py_error + bool" where
  "py_nonempty (PList xs) = Inr (xs \<noteq> [])"
| "py_nonempty (PStr s) = Inr (s \<noteq> [])"
| "py_nonempty (PDict d) = Inr (d \<noteq> [])"
| "py_nonempty v = (if py_truthy v then Inl TypeError else Inr False)"

text \<open>\<^verbatim>\<open>choices[0]\<close>: a dict with string keys has no key \<^verbatim>\<open>0\<close>.\<close>

fun py_first :: "pyval \<Rightarrow> py_error + pyval" where
  "py_first (PList (x # xs)) = Inr x"
| "py_first (PList []) = Inl IndexError"
| "py_first (PStr (c # cs)) = Inr (PStr [c])"
| "py_first (PStr []) = Inl IndexError"
| "py_first (PDict d) = Inl (KeyError ''0'')"
| "py_first v = Inl TypeError"

subsection \<open>The response model\<close>

text \<open>\<^verbatim>\<open>Usage\<close> and \<^verbatim>\<open>MessagesResponse\<close>; the content blocks are the classes of the request.\<close>

record usage =
  input_tokens :: int
  output_tokens :: int
  cache_creation_input_tokens :: int
  cache_read_input_tokens :: int

record messages_response =
  resp_id :: string
  resp_model :: string
  resp_role :: string
  resp_content :: "content_block list"
  resp_type :: string
  stop_reason :: "string option"
  stop_sequence :: "string option"
  resp_usage :: usage

text \<open>The validation pydantic runs when the two models are built from the values the
  translator collected: a text block needs a string, a \<^verbatim>\<open>tool_use\<close> block a string
  identifier, a string name and a dict input, the response a string identifier, and a
  token count must pass the \<^verbatim>\<open>int\<close> coercion.\<close>

definition validate_block :: "pyval \<Rightarrow> py_error + content_block" where
  "validate_block b =
     (case b of
        PDict d \<Rightarrow>
          if dict_get d ''type'' = Some (PStr ''text'') then
            (case dict_get d ''text'' of
               Some (PStr t) \<Rightarrow> Inr (ContentBlockText t)
             | _ \<Rightarrow> Inl ValidationError)
          else if dict_get d ''type'' = Some (PStr ''tool_use'') then
            (case (dict_get d ''id'', dict_get d ''name'', dict_get d ''input'') of
               (Some (PStr i), Some (PStr n), Some (PDict inp)) \<Rightarrow> Inr (ContentBlockToolUse i n inp)
             | _ \<Rightarrow> Inl ValidationError)
          else Inl ValidationError
      | _ \<Rightarrow> Inl ValidationError)"

fun validate_blocks :: "pyval list \<Rightarrow> py_error + content_block list" where
  "validate_blocks [] = Inr []"
| "validate_blocks (b # bs) =
     ebind (validate_block b) (\<lambda>x. ebind (validate_blocks bs) (\<lambda>xs. Inr (x # xs)))"

text \<open>An \<^verbatim>\<open>int\<close> passes as it is; what else passes, and as which number, is the library's
  coercion.\<close>

definition pydantic_int :: "pylib \<Rightarrow> pyval \<Rightarrow> int option" where
  "pydantic_int L v = (case v of PInt n \<Rightarrow> Some n | _ \<Rightarrow> coerce_int L v)"

definition Usage_new :: "pylib \<Rightarrow> pyval \<Rightarrow> pyval \<Rightarrow> py_error + usage" where
  "Usage_new L prompt_tokens completion_tokens =
     (case (pydantic_int L prompt_tokens, pydantic_int L completion_tokens) of
        (Some i, Some out) \<Rightarrow>
          Inr \<lparr>input_tokens = i, output_tokens = out,
               cache_creation_input_tokens = 0, cache_read_input_tokens = 0\<rparr>
      | _ \<Rightarrow> Inl ValidationError)"

definition MessagesResponse_new ::
  "pyval \<Rightarrow> string \<Rightarrow> pyval list \<Rightarrow> string \<Rightarrow> usage \<Rightarrow> py_error + messages_response" where
  "MessagesResponse_new response_id mdl content_list stop u =
     (case response_id of
        PStr i \<Rightarrow>
          ebind (validate_blocks content_list)
            (\<lambda>blocks. Inr \<lparr>resp_id = i, resp_model = mdl, resp_role = ''assistant'',
                            resp_content = blocks, resp_type = ''message'',
                            stop_reason = Some stop, stop_sequence = None, resp_usage = u\<rparr>)
      | _ \<Rightarrow> Inl ValidationError)"

subsection \<open>convert_litellm_to_anthropic\<close>

text \<open>What both branches of the extraction produce.\<close>

record extracted =
  content_text :: pyval
  tool_calls :: pyval
  finish_reason :: pyval
  usage_info :: pyval
  response_id :: pyval

text \<open>The branch for a response object with \<^verbatim>\<open>choices\<close> and \<^verbatim>\<open>usage\<close> (lines 1013-1021).\<close>

definition extract_object :: "pylib \<Rightarrow> pyval \<Rightarrow> py_error + extracted" where
  "extract_object L litellm_response =
     ebind (py_getattr litellm_response ''choices'') (\<lambda>choices.
     ebind (py_nonempty choices) (\<lambda>some.
     ebind (if some then ebind (py_first choices) (\<lambda>c. py_getattr c ''message'') else Inr PNone)
       (\<lambda>msg.
     ebind (if py_truthy msg \<and> py_hasattr msg ''content''
            then py_getattr msg ''content'' else Inr (PStr [])) (\<lambda>text.
     ebind (if py_truthy msg \<and> py_hasattr msg ''tool_calls''
            then py_getattr msg ''tool_calls'' else Inr PNone) (\<lambda>calls.
     ebind (py_nonempty choices) (\<lambda>some'.
     ebind (if some' then ebind (py_first choices) (\<lambda>c. py_getattr c ''finish_reason'')
            else Inr (PStr ''stop'')) (\<lambda>finish.
     ebind (py_getattr litellm_response ''usage'') (\<lambda>u.
       Inr \<lparr>content_text = text, tool_calls = calls, finish_reason = finish, usage_info = u,
            response_id = py_getattr_default litellm_response ''id''
                            (PStr (''msg_'' @ uuid4 L 0))\<rparr>))))))))"

text \<open>The dict a response that is no dict is turned into (lines 1025-1037).  An object is
  a holder of data attributes: it has no \<^verbatim>\<open>dict\<close> and no \<^verbatim>\<open>model_dump\<close> method (calling an
  attribute of that name, a datum, raises \<^verbatim>\<open>TypeError\<close>), and its \<^verbatim>\<open>__dict__\<close> holds its
  attributes.  The other values have neither the methods nor a \<^verbatim>\<open>__dict__\<close>.\<close>

fun response_dict_of :: "pylib \<Rightarrow> pyval \<Rightarrow> py_error + pyval" where
  "response_dict_of L (PDict d) = Inr (PDict d)"
| "response_dict_of L (PObj a) =
     (if dict_has a ''dict'' then Inl TypeError
      else if dict_has a ''model_dump'' then Inl TypeError
      else Inr (PDict a))"
| "response_dict_of L v =
     Inr (PDict [(''id'', PStr (''msg_'' @ uuid4 L 0)),
                 (''choices'', PList [PDict []]),
                 (''usage'', PDict [])])"

text \<open>The branch for every other response (lines 1023-1046).\<close>

definition extract_dict :: "pylib \<Rightarrow> pyval \<Rightarrow> py_error + extracted" where
  "extract_dict L litellm_response =
     ebind (response_dict_of L litellm_response) (\<lambda>response_dict.
     ebind (py_get response_dict ''choices'' (PList [PDict []])) (\<lambda>choices.
     ebind (py_nonempty choices) (\<lambda>some.
     ebind (if some then ebind (py_first choices) (\<lambda>c. py_get c ''message'' (PDict []))
            else Inr (PDict [])) (\<lambda>msg.
     ebind (py_get msg ''content'' (PStr [])) (\<lambda>text.
     ebind (py_get msg ''tool_calls'' PNone) (\<lambda>calls.
     ebind (py_nonempty choices) (\<lambda>some'.
     ebind (if some' then ebind (py_first choices) (\<lambda>c. py_get c ''finish_reason'' (PStr ''stop''))
            else Inr (PStr ''stop'')) (\<lambda>finish.
     ebind (py_get response_dict ''usage'' (PDict [])) (\<lambda>u.
     ebind (py_get response_dict ''id'' (PStr (''msg_'' @ uuid4 L 0))) (\<lambda>rid.
       Inr \<lparr>content_text = text, tool_calls = calls, finish_reason = finish, usage_info = u,
            response_id = rid\<rparr>))))))))))"

text \<open>One tool call (lines 1066-1093), the \<open>idx\<close>-th of the list: the \<^verbatim>\<open>tool_use\<close> dict that
  is appended to the content.  A string of arguments is parsed; one that is no JSON is
  wrapped as \<^verbatim>\<open>{"raw": arguments}\<close>.\<close>

definition parse_arguments :: "pylib \<Rightarrow> pyval \<Rightarrow> pyval" where
  "parse_arguments L arguments =
     (case arguments of
        PStr a \<Rightarrow> (case json_loads L a of None \<Rightarrow> PDict [(''raw'', PStr a)] | Some v \<Rightarrow> v)
      | _ \<Rightarrow> arguments)"

definition tool_use_of :: "pylib \<Rightarrow> nat \<Rightarrow> pyval \<Rightarrow> py_error + pyval" where
  "tool_use_of L idx tool_call =
     (let fresh = PStr (''tool_'' @ uuid4 L (idx + 2)) in
      case tool_call of
        PDict d \<Rightarrow>
          ebind (py_get tool_call ''function'' (PDict [])) (\<lambda>f.
          ebind (py_get tool_call ''id'' fresh) (\<lambda>tool_id.
          ebind (py_get f ''name'' (PStr [])) (\<lambda>name.
          ebind (py_get f ''arguments'' (PStr ''{}'')) (\<lambda>arguments.
            Inr (PDict [(''type'', PStr ''tool_use''), (''id'', tool_id), (''name'', name),
                        (''input'', parse_arguments L arguments)])))))
      | _ \<Rightarrow>
          (let f = py_getattr_default tool_call ''function'' PNone;
               tool_id = py_getattr_default tool_call ''id'' fresh;
               name = (if py_truthy f then py_getattr_default f ''name'' (PStr []) else PStr []);
               arguments = (if py_truthy f then py_getattr_default f ''arguments'' (PStr ''{}'')
                            else PStr ''{}'')
           in Inr (PDict [(''type'', PStr ''tool_use''), (''id'', tool_id), (''name'', name),
                          (''input'', parse_arguments L arguments)])))"

fun tool_uses_of :: "pylib \<Rightarrow> nat \<Rightarrow> pyval list \<Rightarrow> py_error + pyval list" where
  "tool_uses_of L idx [] = Inr []"
| "tool_uses_of L idx (c # cs) =
     ebind (tool_use_of L idx c) (\<lambda>b. ebind (tool_uses_of L (Suc idx) cs) (\<lambda>bs. Inr (b # bs)))"

text \<open>The content list (lines 1049-1093 and 1115-1116).\<close>

definition content_of :: "pylib \<Rightarrow> extracted \<Rightarrow> py_error + pyval list" where
  "content_of L x =
     (let text_part = (if content_text x \<noteq> PNone \<and> content_text x \<noteq> PStr []
                       then [PDict [(''type'', PStr ''text''), (''text'', content_text x)]]
                       else []);
          calls = (if py_truthy (tool_calls x)
                   then (case tool_calls x of PList cs \<Rightarrow> cs | c \<Rightarrow> [c])
                   else [])
      in ebind (tool_uses_of L 0 calls) (\<lambda>uses.
           (let content_list = text_part @ uses
            in if content_list = [] then Inr [PDict [(''type'', PStr ''text''), (''text'', PStr [])]]
               else Inr content_list)))"

text \<open>The token counts (lines 1096-1101) and the stop reason (lines 1104-1112).\<close>

definition tokens_of :: "pyval \<Rightarrow> string \<Rightarrow> pyval" where
  "tokens_of u k =
     (case u of
        PDict d \<Rightarrow> (case dict_get d k of None \<Rightarrow> PInt 0 | Some n \<Rightarrow> n)
      | _ \<Rightarrow> py_getattr_default u k (PInt 0))"

definition map_stop_reason :: "pyval \<Rightarrow> string" where
  "map_stop_reason finish =
     (if finish = PStr ''stop'' then ''end_turn''
      else if finish = PStr ''length'' then ''max_tokens''
      else if finish = PStr ''tool_calls'' then ''tool_use''
      else ''end_turn'')"

text \<open>The two branches of the extraction (line 1013).\<close>

definition extract_response :: "pylib \<Rightarrow> pyval \<Rightarrow> py_error + extracted" where
  "extract_response L litellm_response =
     (if py_hasattr litellm_response ''choices'' \<and> py_hasattr litellm_response ''usage''
      then extract_object L litellm_response
      else extract_dict L litellm_response)"

text \<open>The body of the \<^verbatim>\<open>try\<close> block.\<close>

definition convert_body :: "pylib \<Rightarrow> pyval \<Rightarrow> messages_request \<Rightarrow> py_error + messages_response" where
  "convert_body L litellm_response original_request =
     ebind (extract_response L litellm_response) (\<lambda>x.
     ebind (content_of L x) (\<lambda>content_list.
     ebind (Usage_new L (tokens_of (usage_info x) ''prompt_tokens'')
                        (tokens_of (usage_info x) ''completion_tokens'')) (\<lambda>u.
       MessagesResponse_new (response_id x) (model original_request) content_list
         (map_stop_reason (finish_reason x)) u)))"

text \<open>The reply of the \<^verbatim>\<open>except\<close> block (lines 1141-1148), built and validated like any
  other response.\<close>

definition fallback_response ::
  "pylib \<Rightarrow> py_error \<Rightarrow> messages_request \<Rightarrow> py_error + messages_response" where
  "fallback_response L e original_request =
     ebind (Usage_new L (PInt 0) (PInt 0)) (\<lambda>u.
       MessagesResponse_new (PStr (''msg_'' @ uuid4 L 1)) (model original_request)
         [PDict [(''type'', PStr ''text''),
                 (''text'', PStr (''Error converting response: '' @ exc_str L e
                                  @ ''. Please check server logs.''))]]
         ''end_turn'' u)"

text \<open>\<^verbatim>\<open>convert_litellm_to_anthropic\<close>: the \<^verbatim>\<open>try\<close> block, and the \<^verbatim>\<open>except\<close> block for every
  exception of it.  An exception of the \<^verbatim>\<open>except\<close> block itself would leave the
  function.\<close>

definition convert_litellm_to_anthropic ::
  "pylib \<Rightarrow> pyval \<Rightarrow> messages_request \<Rightarrow> py_error + messages_response" where
  "convert_litellm_to_anthropic L litellm_response original_request =
     (case convert_body L litellm_response original_request of
        Inl e \<Rightarrow> fallback_response L e original_request
      | Inr r \<Rightarrow> Inr r)"

section \<open>server.py: the streaming reconstructor\<close>

text \<open>
  The fragments are the stream chunks of the backend client: a chunk has an optional
  usage record (prompt and completion tokens) and a list of choices, of which the first
  is read; a choice has a delta with an optional text and a list of tool-call fragments
  (absent, \<^verbatim>\<open>None\<close> and the empty list are all false), and an optional finish reason.  A
  tool-call fragment has the backend's index, an identifier and a function part (name
  and arguments, either of which may be \<^verbatim>\<open>None\<close>); arguments come as a string or as a
  dict.
\<close>

datatype tool_args = ArgsNone | ArgsStr string | ArgsDict "(string \<times> pyval) list"

record tool_function =
  fn_name :: "string option"
  fn_arguments :: tool_args

record tool_call_delta =
  tc_index :: int
  tc_id :: "string option"
  tc_function :: "tool_function option"

record choice =
  c_content :: "string option"
  c_tool_calls :: "tool_call_delta list"
  c_finish_reason :: "string option"

record stream_chunk =
  c_usage :: "(int \<times> int) option"
  c_choices :: "choice list"

text \<open>How the upstream iterator ends: exhausted, or by raising.\<close>

datatype stream_end = Exhausted | Raised

text \<open>The events of the Anthropic stream, each with the fields of its JSON payload that
  vary: \<^verbatim>\<open>message_start\<close> (identifier, model), \<^verbatim>\<open>content_block_start\<close> for a text block
  (index) and for a \<^verbatim>\<open>tool_use\<close> block (index, identifier, name), \<^verbatim>\<open>ping\<close>,
  \<^verbatim>\<open>content_block_delta\<close> with a \<^verbatim>\<open>text_delta\<close> or an \<^verbatim>\<open>input_json_delta\<close> (index, text),
  \<^verbatim>\<open>content_block_stop\<close> (index), \<^verbatim>\<open>message_delta\<close> (stop reason, output tokens),
  \<^verbatim>\<open>message_stop\<close>, and the final line \<^verbatim>\<open>data: [DONE]\<close>.\<close>

datatype sse_event =
    MessageStart string string
  | ContentBlockStartText nat
  | ContentBlockStartToolUse nat "string option" "string option"
  | Ping
  | TextDelta nat string
  | InputJsonDelta nat string
  | ContentBlockStop nat
  | MessageDelta string int
  | MessageStop
  | Done

text \<open>The local variables of \<^verbatim>\<open>handle_streaming\<close> (lines 1182-1194).
  \<open>anthropic_tool_index\<close> is assigned when the first tool block is opened and is not read
  before.\<close>

record stream_state =
  tool_index :: "int option"
  tool_content :: string
  accumulated_text :: string
  text_sent :: bool
  text_block_closed :: bool
  s_input_tokens :: int
  s_output_tokens :: int
  has_sent_stop_reason :: bool
  last_tool_index :: nat
  anthropic_tool_index :: nat
  full_response_text :: string

definition initial_stream_state :: stream_state where
  "initial_stream_state =
     \<lparr>tool_index = None, tool_content = [], accumulated_text = [], text_sent = False,
      text_block_closed = False, s_input_tokens = 0, s_output_tokens = 0,
      has_sent_stop_reason = False, last_tool_index = 0, anthropic_tool_index = 0,
      full_response_text = []\<rparr>"

text \<open>Lines 1202-1206: the usage of a chunk.\<close>

definition usage_step :: "stream_state \<Rightarrow> (int \<times> int) option \<Rightarrow> stream_state" where
  "usage_step s u =
     (case u of
        None \<Rightarrow> s
      | Some (prompt_tokens, completion_tokens) \<Rightarrow>
          s\<lparr>s_input_tokens := prompt_tokens, s_output_tokens := completion_tokens\<rparr>)"

text \<open>Lines 1232-1239: a text delta.\<close>

definition text_step :: "stream_state \<Rightarrow> string option \<Rightarrow> stream_state \<times> sse_event list" where
  "text_step s delta_content =
     (case delta_content of
        None \<Rightarrow> (s, [])
      | Some t \<Rightarrow>
          if t = [] then (s, [])
          else
            (let s1 = s\<lparr>accumulated_text := accumulated_text s @ t,
                        full_response_text := full_response_text s @ t\<rparr>
             in if tool_index s1 = None \<and> \<not> text_block_closed s1
                then (s1\<lparr>text_sent := True\<rparr>, [TextDelta 0 t])
                else (s1, [])))"

text \<open>Lines 1253-1270: the text block is closed when the first tool call arrives.\<close>

definition close_text_block :: "stream_state \<Rightarrow> stream_state \<times> sse_event list" where
  "close_text_block s =
     (if tool_index s = None then
        (if text_sent s \<and> \<not> text_block_closed s
           then (s\<lparr>text_block_closed := True\<rparr>, [ContentBlockStop 0])
         else if accumulated_text s \<noteq> [] \<and> \<not> text_sent s \<and> \<not> text_block_closed s
           then (s\<lparr>text_sent := True, text_block_closed := True\<rparr>,
                 [TextDelta 0 (accumulated_text s), ContentBlockStop 0])
         else if \<not> text_block_closed s
           then (s\<lparr>text_block_closed := True\<rparr>, [ContentBlockStop 0])
         else (s, []))
      else (s, []))"

text \<open>Lines 1287-1306: a fragment with a new backend index opens a new block.\<close>

definition open_tool_block ::
  "stream_state \<Rightarrow> tool_call_delta \<Rightarrow> stream_state \<times> sse_event list" where
  "open_tool_block s tc =
     (if tool_index s = None \<or> Some (tc_index tc) \<noteq> tool_index s then
        (let name = (case tc_function tc of None \<Rightarrow> Some [] | Some f \<Rightarrow> fn_name f)
         in (s\<lparr>tool_index := Some (tc_index tc),
               last_tool_index := last_tool_index s + 1,
               anthropic_tool_index := last_tool_index s + 1,
               tool_content := []\<rparr>,
             [ContentBlockStartToolUse (last_tool_index s + 1) (tc_id tc) name]))
      else (s, []))"

text \<open>Lines 1309-1336: the arguments of a fragment.  The flag of the result says that
  an exception ended the work on the chunk: a dict that \<^verbatim>\<open>json.dumps\<close> refuses is kept as
  it is, and serialising the event then raises.\<close>

definition arguments_step ::
  "pylib \<Rightarrow> stream_state \<Rightarrow> tool_call_delta \<Rightarrow> stream_state \<times> sse_event list \<times> bool" where
  "arguments_step L s tc =
     (case tc_function tc of
        None \<Rightarrow> (s, [], False)
      | Some f \<Rightarrow>
          (case fn_arguments f of
             ArgsNone \<Rightarrow> (s, [], False)
           | ArgsStr a \<Rightarrow>
               if a = [] then (s, [], False)
               else (s\<lparr>tool_content := tool_content s @ a\<rparr>,
                     [InputJsonDelta (anthropic_tool_index s) a], False)
           | ArgsDict d \<Rightarrow>
               if d = [] then (s, [], False)
               else (case json_dumps L (PDict d) of
                       None \<Rightarrow> (s, [], True)
                     | Some args_json \<Rightarrow>
                         (s\<lparr>tool_content := tool_content s @ args_json\<rparr>,
                          [InputJsonDelta (anthropic_tool_index s) args_json], False))))"

text \<open>The loop over the tool-call fragments of a delta (lines 1276-1336).\<close>

fun tool_calls_loop ::
  "pylib \<Rightarrow> stream_state \<Rightarrow> tool_call_delta list \<Rightarrow> stream_state \<times> sse_event list \<times> bool" where
  "tool_calls_loop L s [] = (s, [], False)"
| "tool_calls_loop L s (tc # tcs) =
     (case open_tool_block s tc of (s1, ev1) \<Rightarrow>
      case arguments_step L s1 tc of (s2, ev2, raised) \<Rightarrow>
        if raised then (s2, ev1 @ ev2, True)
        else (case tool_calls_loop L s2 tcs of (s3, ev3, raised') \<Rightarrow>
                (s3, ev1 @ ev2 @ ev3, raised')))"

text \<open>Lines 1355-1362: the stop reason.\<close>

definition stream_stop_reason :: "string \<Rightarrow> string" where
  "stream_stop_reason finish =
     (if finish = ''length'' then ''max_tokens''
      else if finish = ''tool_calls'' then ''tool_use''
      else ''end_turn'')"

text \<open>Lines 1342-1373: the events sent on the finish signal.\<close>

definition finish_events :: "stream_state \<Rightarrow> string \<Rightarrow> sse_event list" where
  "finish_events s finish =
     (if tool_index s \<noteq> None then map ContentBlockStop [1 ..< last_tool_index s + 1] else [])
     @ (if \<not> text_block_closed s
        then (if accumulated_text s \<noteq> [] \<and> \<not> text_sent s
              then [TextDelta 0 (accumulated_text s)] else [])
             @ [ContentBlockStop 0]
        else [])
     @ [MessageDelta (stream_stop_reason finish) (s_output_tokens s), MessageStop, Done]"

text \<open>The body of the loop over the chunks (lines 1198-1411): the new state, the events
  sent, and whether the generator returned.  An exception inside the body is caught
  there and the next chunk is read; what was sent before stays sent.\<close>

definition chunk_step ::
  "pylib \<Rightarrow> stream_state \<Rightarrow> stream_chunk \<Rightarrow> stream_state \<times> sse_event list \<times> bool" where
  "chunk_step L s chunk =
     (let s0 = usage_step s (c_usage chunk) in
      case c_choices chunk of
        [] \<Rightarrow> (s0, [], False)
      | ch # rest \<Rightarrow>
          (case text_step s0 (c_content ch) of (s1, ev1) \<Rightarrow>
           case (if c_tool_calls ch \<noteq> []
                 then (case close_text_block s1 of (s2, ev2) \<Rightarrow>
                       case tool_calls_loop L s2 (c_tool_calls ch) of (s3, ev3, raised) \<Rightarrow>
                         (s3, ev2 @ ev3, raised))
                 else (s1, [], False)) of (s3, ev3, raised) \<Rightarrow>
             if raised then (s3, ev1 @ ev3, False)
             else (case c_finish_reason ch of
                     None \<Rightarrow> (s3, ev1 @ ev3, False)
                   | Some finish \<Rightarrow>
                       if finish \<noteq> [] \<and> \<not> has_sent_stop_reason s3
                       then (s3\<lparr>has_sent_stop_reason := True\<rparr>,
                             ev1 @ ev3 @ finish_events s3 finish, True)
                       else (s3, ev1 @ ev3, False))))"

fun process_chunks ::
  "pylib \<Rightarrow> stream_state \<Rightarrow> stream_chunk list \<Rightarrow> stream_state \<times> sse_event list \<times> bool" where
  "process_chunks L s [] = (s, [], False)"
| "process_chunks L s (chunk # chunks) =
     (case chunk_step L s chunk of (s1, ev1, returned) \<Rightarrow>
        if returned then (s1, ev1, True)
        else (case process_chunks L s1 chunks of (s2, ev2, returned') \<Rightarrow>
                (s2, ev1 @ ev2, returned')))"

text \<open>Lines 1414-1432: the closing sequence when the chunks ran out with no finish
  signal.\<close>

definition closing_events :: "stream_state \<Rightarrow> sse_event list" where
  "closing_events s =
     (if tool_index s \<noteq> None then map ContentBlockStop [1 ..< last_tool_index s + 1] else [])
     @ [ContentBlockStop 0, MessageDelta ''end_turn'' (s_output_tokens s), MessageStop, Done]"

text \<open>Lines 1485-1491: the events of the \<^verbatim>\<open>except\<close> block.\<close>

definition error_events :: "sse_event list" where
  "error_events = [MessageDelta ''error'' 0, MessageStop, Done]"

text \<open>\<^verbatim>\<open>handle_streaming\<close>: everything the generator yields, in order.  (The records it
  writes to the debug log and to the conversation history are not events and are left
  out.)\<close>

definition handle_streaming ::
  "pylib \<Rightarrow> messages_request \<Rightarrow> stream_chunk list \<Rightarrow> stream_end \<Rightarrow> sse_event list" where
  "handle_streaming L original_request chunks ending =
     [MessageStart (''msg_'' @ uuid4 L 0) (model original_request),
      ContentBlockStartText 0, Ping]
     @ (case process_chunks L initial_stream_state chunks of (s, ev, returned) \<Rightarrow>
          ev @ (if returned then []
                else (case ending of
                        Exhausted \<Rightarrow> closing_events s
                      | Raised \<Rightarrow> error_events)))"

section \<open>server.py: the transparent forwarder\<close>

text \<open>Lines 1561 and 1602-1619 of \<^verbatim>\<open>forward_to_anthropic\<close>: the headers sent upstream, from
  the configured key and the dict of the client's headers (\<^verbatim>\<open>dict(raw_request.headers)\<close>,
  names in lower case).\<close>

definition forward_headers ::
  "string option \<Rightarrow> (string \<times> string) list \<Rightarrow> (string \<times> string) list" where
  "forward_headers key raw_headers =
     (let headers = dict_pop ''host'' raw_headers;
          headers1 =
            (case key of
               None \<Rightarrow> headers
             | Some k \<Rightarrow>
                 if k = [] then headers
                 else dict_pop ''authorization'' (dict_set ''x-api-key'' k headers))
      in if \<not> dict_has headers1 ''anthropic-version''
         then dict_set ''anthropic-version'' ''2023-06-01'' headers1
         else headers1)"

section \<open>Sample values\<close>

text \<open>Concrete inputs at which the properties below are evaluated: a provider table
  with one OpenAI-compatible provider, with and without its key, a request, and an
  instance of the library functions (a JSON codec that knows two documents).\<close>

definition sample_provider :: provider_config where
  "sample_provider =
     \<lparr>pc_name = ''OpenAI'', base_url = ''https://api.openai.com/v1'',
      api_key_env = ''OPENAI_API_KEY'', api_format = ''openai'',
      endpoint = ''/chat/completions'', api_key = Some ''sk-test'',
      models = [''gpt-4.1'', ''gpt-4.1-mini'']\<rparr>"

definition sample_manager :: config_manager where
  "sample_manager = ConfigManager_init [(''openai'', sample_provider)] []"


definition sample_request :: messages_request where
  "sample_request =
     \<lparr>model = ''gpt-4.1'', max_tokens = 50000,
      messages = [\<lparr>msg_role = User, msg_content = Inl ''hi''\<rparr>],
      system = None, stop_sequences = None, stream = Some False,
      temperature = PFloat 1, top_p = PNone, top_k = None, tools = None,
      tool_choice = None, thinking = None,
      original_model = Some ''claude-3-5-sonnet-20241022''\<rparr>"

definition sample_lib :: pylib where
  "sample_lib =
     \<lparr>json_dumps = (\<lambda>v. if v = PDict [] then Some ''{}''
                          else if v = PDict [(''a'', PInt 1)] then Some ''{\"a\": 1}''
                          else None),
      json_loads = (\<lambda>s. if s = ''{}'' then Some (PDict [])
                          else if s = ''{\"a\": 1}'' then Some (PDict [(''a'', PInt 1)])
                          else if s = ''[1]'' then Some (PList [PInt 1])
                          else None),
      py_str = (\<lambda>v. ''?''),
      exc_str = (\<lambda>e. ''error''),
      coerce_int = (\<lambda>v. case v of PInt n \<Rightarrow> Some n | _ \<Rightarrow> None),
      uuid4 = (\<lambda>n. ''0000'')\<rparr>"

text \<open>The chunks of the streaming scenario: a text delta, a tool-call fragment, a finish
  signal.\<close>

definition text_chunk :: stream_chunk where
  "text_chunk = \<lparr>c_usage = None,
      c_choices = [\<lparr>c_content = Some ''Hello'', c_tool_calls = [], c_finish_reason = None\<rparr>]\<rparr>"

definition tool_chunk :: stream_chunk where
  "tool_chunk = \<lparr>c_usage = None,
      c_choices = [\<lparr>c_content = None,
                    c_tool_calls = [\<lparr>tc_index = 0, tc_id = Some ''call_1'',
                                     tc_function = Some \<lparr>fn_name = Some ''f'',
                                                         fn_arguments = ArgsStr ''{\"a\":1}''\<rparr>\<rparr>],
                    c_finish_reason = None\<rparr>]\<rparr>"

definition finish_chunk :: stream_chunk where
  "finish_chunk = \<lparr>c_usage = None,
      c_choices = [\<lparr>c_content = None, c_tool_calls = [],
                    c_finish_reason = Some ''tool_calls''\<rparr>]\<rparr>"

text \<open>The indices of the \<^verbatim>\<open>content_block_stop\<close> events of a stream, in order.\<close>

fun stop_index :: "sse_event \<Rightarrow> nat option" where
  "stop_index (ContentBlockStop i) = Some i"
| "stop_index e = None"

definition stops :: "sse_event list \<Rightarrow> nat list" where
  "stops evs = List.map_filter stop_index evs"

text \<open>Once a tool call was seen the text block is closed.\<close>

definition closed_if_tools :: "stream_state \<Rightarrow> bool" where
  "closed_if_tools s = (tool_index s = None \<or> text_block_closed s)"

text \<open>What a reply must look like: the role and type of a message, at least one content
  block, only text and \<^verbatim>\<open>tool_use\<close> blocks, and one of the four stop reasons.\<close>

fun valid_block :: "content_block \<Rightarrow> bool" where
  "valid_block (ContentBlockText t) = True"
| "valid_block (ContentBlockToolUse i n inp) = True"
| "valid_block b = False"

definition valid_response :: "messages_response \<Rightarrow> bool" where
  "valid_response r =
     (resp_role r = ''assistant'' \<and> resp_type r = ''message'' \<and> resp_content r \<noteq> []
      \<and> list_all valid_block (resp_content r)
      \<and> (stop_reason r = Some ''end_turn'' \<or> stop_reason r = Some ''max_tokens''
         \<or> stop_reason r = Some ''stop_sequence'' \<or> stop_reason r = Some ''tool_use''))"

text \<open>A backend reply whose message is \<^verbatim>\<open>null\<close>: reading its content raises.\<close>

definition broken_response :: pyval where
  "broken_response = PDict [(''id'', PStr ''chatcmpl-1''),
                            (''choices'', PList [PDict [(''message'', PNone)]])]"

text \<open>Observations on requests and replies, and the inputs of the round trip.\<close>


text \<open>A user message with a tool_result block.\<close>

definition is_tool_result_message :: "message \<Rightarrow> bool" where
  "is_tool_result_message msg =
     (case msg_content msg of
        Inl text \<Rightarrow> False
      | Inr blocks \<Rightarrow> msg_role msg = User \<and> ''tool_result'' \<in> set (map block_type blocks))"







section \<open>The schema cleaner in the words of the specification\<close>

text \<open>The dict has type string and a format outside the allowed set.\<close>

definition format_refused :: "(string \<times> pyval) list \<Rightarrow> bool" where
  "format_refused d =
     (dict_get d ''type'' = Some (PStr ''string'')
      \<and> dict_get d ''format'' \<noteq> None
      \<and> dict_get d ''format'' \<noteq> Some (PStr ''enum'')
      \<and> dict_get d ''format'' \<noteq> Some (PStr ''date-time''))"

text \<open>The cleaner in the words of the specification: at every depth, the keys
  additionalProperties and default are dropped, format is dropped from a dict of type
  string unless its value is enum or date-time, and everything else is kept.\<close>

fun stripped :: "pyval \<Rightarrow> pyval"
  and stripped_items :: "bool \<Rightarrow> (string \<times> pyval) list \<Rightarrow> (string \<times> pyval) list"
  and stripped_elems :: "pyval list \<Rightarrow> pyval list"
where
  "stripped (PDict d) = PDict (stripped_items (format_refused d) d)"
| "stripped (PList xs) = PList (stripped_elems xs)"
| "stripped PNone = PNone"
| "stripped (PBool b) = PBool b"
| "stripped (PInt n) = PInt n"
| "stripped (PFloat x) = PFloat x"
| "stripped (PStr s) = PStr s"
| "stripped (PObj a) = PObj a"
| "stripped_items drop_format [] = []"
| "stripped_items drop_format (kv # kvs) =
     (if fst kv = ''additionalProperties'' \<or> fst kv = ''default''
         \<or> (drop_format \<and> fst kv = ''format'')
      then stripped_items drop_format kvs
      else (fst kv, stripped (snd kv)) # stripped_items drop_format kvs)"
| "stripped_elems [] = []"
| "stripped_elems (x # xs) = stripped x # stripped_elems xs"

text \<open>The property of the result: no refused key at any depth.\<close>

fun gemini_clean :: "pyval \<Rightarrow> bool"
  and gemini_clean_items :: "(string \<times> pyval) list \<Rightarrow> bool"
  and gemini_clean_elems :: "pyval list \<Rightarrow> bool"
where
  "gemini_clean (PDict d) =
     (\<not> dict_has d ''additionalProperties'' \<and> \<not> dict_has d ''default''
      \<and> \<not> format_refused d \<and> gemini_clean_items d)"
| "gemini_clean (PList xs) = gemini_clean_elems xs"
| "gemini_clean PNone = True"
| "gemini_clean (PBool b) = True"
| "gemini_clean (PInt n) = True"
| "gemini_clean (PFloat x) = True"
| "gemini_clean (PStr s) = True"
| "gemini_clean (PObj a) = True"
| "gemini_clean_items [] = True"
| "gemini_clean_items (kv # kvs) = (gemini_clean (snd kv) \<and> gemini_clean_items kvs)"
| "gemini_clean_elems [] = True"
| "gemini_clean_elems (x # xs) = (gemini_clean x \<and> gemini_clean_elems xs)"

text \<open>Whether the check of format raises on a dict: it has type string and a list or a
  dict as its format.\<close>

definition format_unhashable :: "(string \<times> pyval) list \<Rightarrow> bool" where
  "format_unhashable d =
     (dict_get d ''type'' = Some (PStr ''string'')
      \<and> (case dict_get d ''format'' of None \<Rightarrow> False | Some f \<Rightarrow> \<not> py_hashable f))"

text \<open>Somewhere in the value, under keys that are kept, there is such a dict.\<close>

fun unhashable_format :: "pyval \<Rightarrow> bool"
  and unhashable_format_items :: "bool \<Rightarrow> (string \<times> pyval) list \<Rightarrow> bool"
  and unhashable_format_elems :: "pyval list \<Rightarrow> bool"
where
  "unhashable_format (PDict d) =
     (format_unhashable d \<or> unhashable_format_items (format_refused d) d)"
| "unhashable_format (PList xs) = unhashable_format_elems xs"
| "unhashable_format PNone = False"
| "unhashable_format (PBool b) = False"
| "unhashable_format (PInt n) = False"
| "unhashable_format (PFloat x) = False"
| "unhashable_format (PStr s) = False"
| "unhashable_format (PObj a) = False"
| "unhashable_format_items drop_format [] = False"
| "unhashable_format_items drop_format (kv # kvs) =
     (if fst kv = ''additionalProperties'' \<or> fst kv = ''default''
         \<or> (drop_format \<and> fst kv = ''format'')
      then unhashable_format_items drop_format kvs
      else unhashable_format (snd kv) \<or> unhashable_format_items drop_format kvs)"
| "unhashable_format_elems [] = False"
| "unhashable_format_elems (x # xs) = (unhashable_format x \<or> unhashable_format_elems xs)"

definition stripped_values :: "(string \<times> pyval) list \<Rightarrow> (string \<times> pyval) list" where
  "stripped_values d = map (\<lambda>kv. (fst kv, stripped (snd kv))) d"

definition kept :: "bool \<Rightarrow> string \<times> pyval \<Rightarrow> bool" where
  "kept drop_format kv =
     (fst kv \<noteq> ''additionalProperties'' \<and> fst kv \<noteq> ''default''
      \<and> \<not> (drop_format \<and> fst kv = ''format''))"

text \<open>A tool whose schema has a dict where a format name belongs, and a request for a
  Gemini model that carries it.\<close>

definition odd_schema :: "(string \<times> pyval) list" where
  "odd_schema =
     [(''type'', PStr ''object''),
      (''properties'',
         PDict [(''when'', PDict [(''type'', PStr ''string''),
                                  (''format'', PDict [(''pattern'', PStr ''date'')])])])]"

definition gemini_request :: messages_request where
  "gemini_request =
     sample_request\<lparr>model := ''gemini/gemini-2.0-flash'',
       tools := Some [\<lparr>tool_name = ''remind'', description = None,
                       input_schema = odd_schema\<rparr>]\<rparr>"

chapter \<open>Properties\<close>

section \<open>Facts about dicts\<close>

lemma dict_get_pop: "dict_get (dict_pop k d) h = (if h = k then None else dict_get d h)"
  by (induction d) (auto simp: dict_get_def dict_pop_def)

lemma dict_get_set: "dict_get (dict_set k v d) h = (if h = k then Some v else dict_get d h)"
  by (induction d) (auto simp: dict_get_def)

lemma dict_has_get: "dict_has d k = (dict_get d k \<noteq> None)"
  by (simp add: dict_has_def dict_get_def map_of_eq_None_iff)

section \<open>The debug log is bounded\<close>

lemma add_debug_log_logs:
  "debug_logs (add_debug_log now ty msg d cm) =
     (let logs = debug_logs cm @ [\<lparr>timestamp = now, log_type = ty, log_message = msg,
                                   details = details_or_empty d\<rparr>]
      in if length logs > max_debug_logs cm then py_slice_last (max_debug_logs cm) logs else logs)"
  by (simp add: add_debug_log_def Let_def)

lemma add_debug_log_frame:
  "max_debug_logs (add_debug_log now ty msg d cm) = max_debug_logs cm"
  "providers (add_debug_log now ty msg d cm) = providers cm"
  "config (add_debug_log now ty msg d cm) = config cm"
  by (simp_all add: add_debug_log_def Let_def)

lemma add_debug_log_bounded:
  assumes "logs_bounded cm"
  shows "logs_bounded (add_debug_log now ty msg d cm)"
  using assms
  by (auto simp: logs_bounded_def add_debug_log_logs add_debug_log_frame Let_def py_slice_last_def)

lemma invoke_bounded:
  assumes "logs_bounded cm"
  shows "logs_bounded (invoke cm c)"
proof (cases c)
  case (AddDebugLog now ty msg d)
  then show ?thesis using assms by (simp add: add_debug_log_bounded)
next
  case ClearDebugLogs
  then show ?thesis using assms by (simp add: logs_bounded_def clear_debug_logs_def)
next
  case (ApplyPreset now nm)
  have "logs_bounded (snd (apply_preset now nm cm))"
    using assms add_debug_log_bounded [of "cm\<lparr>config := c'\<rparr>" for c']
    by (auto simp: apply_preset_def Let_def logs_bounded_def add_debug_log_frame
             split: option.splits)
  then show ?thesis using ApplyPreset by simp
next
  case (SetModels now big small)
  have "logs_bounded (snd (set_models now big small cm))"
    using assms add_debug_log_bounded [of "cm\<lparr>config := c'\<rparr>" for c']
    by (auto simp: set_models_def Let_def logs_bounded_def add_debug_log_frame)
  then show ?thesis using SetModels by simp
next
  case ToggleProxy
  then show ?thesis using assms by (simp add: logs_bounded_def toggle_proxy_def Let_def)
qed

lemma init_bounded: "logs_bounded (ConfigManager_init provs pres)"
  by (simp add: ConfigManager_init_def load_default_preset_def logs_bounded_def
           split: option.splits)

lemma foldl_invoke_bounded:
  "logs_bounded cm \<Longrightarrow> logs_bounded (foldl invoke cm cs)"
  by (induction cs arbitrary: cm) (simp_all add: invoke_bounded)

text \<open>
  Claim C10.  After \<^verbatim>\<open>ConfigManager.__init__\<close> the debug log holds at most
  \<open>max_debug_logs = 50\<close> entries, and every call keeps it so.  \<open>add_debug_log\<close> appends the
  new entry and then keeps the 50 most recent ones: the new entry is always the last of
  the log, and the log is the tail of the old log followed by the new entry.
\<close>

theorem debug_logs_bounded:
  fixes cm :: config_manager
  defines "entry now ty msg d \<equiv>
    \<lparr>timestamp = now, log_type = ty, log_message = msg, details = details_or_empty d\<rparr>"
  shows "length (debug_logs (foldl invoke (ConfigManager_init provs pres) cs)) \<le> 50
       \<and> max_debug_logs (foldl invoke (ConfigManager_init provs pres) cs) = 50
       \<and> (logs_bounded cm \<longrightarrow>
            logs_bounded (add_debug_log now ty msg d cm)
          \<and> debug_logs (add_debug_log now ty msg d cm)
              = py_slice_last 50 (debug_logs cm @ [entry now ty msg d])
          \<and> last (debug_logs (add_debug_log now ty msg d cm)) = entry now ty msg d
          \<and> length (debug_logs (add_debug_log now ty msg d cm))
              = min 50 (Suc (length (debug_logs cm))))"
proof -
  have reach: "logs_bounded (foldl invoke (ConfigManager_init provs pres) cs)"
    by (rule foldl_invoke_bounded [OF init_bounded])
  have step: "logs_bounded (add_debug_log now ty msg d cm)
          \<and> debug_logs (add_debug_log now ty msg d cm)
              = py_slice_last 50 (debug_logs cm @ [entry now ty msg d])
          \<and> last (debug_logs (add_debug_log now ty msg d cm)) = entry now ty msg d
          \<and> length (debug_logs (add_debug_log now ty msg d cm))
              = min 50 (Suc (length (debug_logs cm)))"
    if b: "logs_bounded cm"
  proof -
    have m: "max_debug_logs cm = 50" and l: "length (debug_logs cm) \<le> 50"
      using b by (simp_all add: logs_bounded_def)
    have eq: "debug_logs (add_debug_log now ty msg d cm)
              = py_slice_last 50 (debug_logs cm @ [entry now ty msg d])"
      using m l by (simp add: add_debug_log_logs Let_def py_slice_last_def entry_def)
    have "last (py_slice_last 50 (debug_logs cm @ [entry now ty msg d])) = entry now ty msg d"
      using l by (simp add: py_slice_last_def)
    moreover have "length (py_slice_last 50 (debug_logs cm @ [entry now ty msg d]))
                   = min 50 (Suc (length (debug_logs cm)))"
      using l by (simp add: py_slice_last_def)
    ultimately show ?thesis
      using eq add_debug_log_bounded [OF b] by simp
  qed
  have "length (debug_logs (foldl invoke (ConfigManager_init provs pres) cs)) \<le> 50"
    and "max_debug_logs (foldl invoke (ConfigManager_init provs pres) cs) = 50"
    using reach by (simp_all add: logs_bounded_def)
  with step show ?thesis by blast
qed

text \<open>The bound at work: a manager whose log is full (50 old entries) drops the oldest
  entry when one more is logged, and the new entry is the last one.\<close>

theorem debug_logs_bounded_witness:
  "logs_bounded
     \<lparr>providers = [], presets = [],
      debug_logs = replicate 50 \<lparr>timestamp = ''t0'', log_type = ''request'',
                                  log_message = ''old'', details = PDict []\<rparr>,
      max_debug_logs = 50,
      config = \<lparr>proxy_enabled = True, big_model = None, small_model = None,
                current_preset = None\<rparr>\<rparr>
   \<and> debug_logs
       (add_debug_log ''t1'' ''error'' ''new'' None
          \<lparr>providers = [], presets = [],
           debug_logs = replicate 50 \<lparr>timestamp = ''t0'', log_type = ''request'',
                                       log_message = ''old'', details = PDict []\<rparr>,
           max_debug_logs = 50,
           config = \<lparr>proxy_enabled = True, big_model = None, small_model = None,
                     current_preset = None\<rparr>\<rparr>)
     = replicate 49 \<lparr>timestamp = ''t0'', log_type = ''request'',
                      log_message = ''old'', details = PDict []\<rparr>
       @ [\<lparr>timestamp = ''t1'', log_type = ''error'', log_message = ''new'',
           details = PDict []\<rparr>]"
  using debug_logs_bounded [of "[]" "[]" "[]"
      "\<lparr>providers = [], presets = [],
        debug_logs = replicate 50 \<lparr>timestamp = ''t0'', log_type = ''request'',
                                    log_message = ''old'', details = PDict []\<rparr>,
        max_debug_logs = 50,
        config = \<lparr>proxy_enabled = True, big_model = None, small_model = None,
                  current_preset = None\<rparr>\<rparr>"
      "''t1''" "''error''" "''new''" None]
  by (simp add: logs_bounded_def py_slice_last_def details_or_empty_def)

section \<open>The headers of the transparent forwarder\<close>

text \<open>
  Claim C9, as the code has it.  For every configured key and every dict of client
  headers, the headers sent to the Anthropic backend are the client's headers with
  \<^verbatim>\<open>host\<close> removed; with \<^verbatim>\<open>x-api-key\<close> set to the configured key and \<^verbatim>\<open>authorization\<close>
  removed when a non-empty \<^verbatim>\<open>ANTHROPIC_API_KEY\<close> is configured; and with
  \<^verbatim>\<open>anthropic-version: 2023-06-01\<close> added when the client sent no \<^verbatim>\<open>anthropic-version\<close>.
  Every other header keeps the client's value, and no other header appears.
\<close>

theorem forward_headers_lookup:
  "dict_get (forward_headers key raw_headers) h =
     (if h = ''host'' then None
      else if key \<noteq> None \<and> key \<noteq> Some [] \<and> h = ''x-api-key'' then key
      else if key \<noteq> None \<and> key \<noteq> Some [] \<and> h = ''authorization'' then None
      else if h = ''anthropic-version'' \<and> dict_get raw_headers h = None then Some ''2023-06-01''
      else dict_get raw_headers h)"
  by (cases key) (auto simp: forward_headers_def Let_def dict_get_pop dict_get_set dict_has_get)

text \<open>The claim as it was stated fails: with no key configured, a request that carries
  no \<^verbatim>\<open>anthropic-version\<close> header is not forwarded with just its own headers less
  \<^verbatim>\<open>host\<close>.\<close>

theorem forward_headers_counterexample:
  "forward_headers None [(''host'', ''localhost:8082''), (''authorization'', ''Bearer t'')]
     = [(''authorization'', ''Bearer t''), (''anthropic-version'', ''2023-06-01'')]
   \<and> forward_headers None [(''host'', ''localhost:8082''), (''authorization'', ''Bearer t'')]
     \<noteq> dict_pop ''host'' [(''host'', ''localhost:8082''), (''authorization'', ''Bearer t'')]"
  by (simp add: forward_headers_def dict_pop_def dict_has_def)

section \<open>The model router\<close>



lemma validate_model_field_two_keywords:
  "validate_model_field
     [(''super_model'', PStr ''S''), (''big_model'', PStr ''B''), (''small_model'', PStr ''M'')]
     ''openai/Claude-OPUS-sonnet'' = Inr (PStr ''S'')"
  "validate_model_field
     [(''super_model'', PStr ''S''), (''big_model'', PStr ''B''), (''small_model'', PStr ''M'')]
     ''claude-sonnet-haiku'' = Inr (PStr ''M'')"
  by (simp_all add: validate_model_field_def dict_item_def clean_model_name_def lower_def
        lower_char_def)



text \<open>
  Claim C5.  The validator reads \<^verbatim>\<open>current_config["super_model"]\<close> from the dict that
  \<^verbatim>\<open>ConfigManager.get_status\<close> returns, and that dict has no such key.  So on the status of
  any manager, and for every model token, the validator raises
  \<^verbatim>\<open>KeyError('super_model')\<close> before it strips a prefix or looks for a keyword: no token is
  resolved.  (On a status dict that does carry the three alias entries the precedence is
  the claimed one, see \<open>validate_model_field_keyword\<close>.)
\<close>

theorem route_model_key_error: "route_model cm v = Inl (KeyError ''super_model'')"
  by (simp add: route_model_def validate_model_field_def get_status_def dict_item_def)




section \<open>The cap on max_tokens\<close>

text \<open>The translator caps \<^verbatim>\<open>max_tokens\<close> when the model of the request starts with
  \<^verbatim>\<open>openai/\<close> or \<^verbatim>\<open>gemini/\<close>, and only then.\<close>

lemma convert_max_tokens:
  assumes "convert_anthropic_to_litellm L request = Inr r"
  shows "dict_get r ''max_tokens'' = Some (PInt (capped_max_tokens request))"
  using assms
  by (auto simp: convert_anthropic_to_litellm_def Let_def dict_get_def
           split: sum.splits option.splits if_splits)

lemma select_backend_max_tokens:
  "dict_get (select_backend E cm request r) ''max_tokens'' = dict_get r ''max_tokens''"
  by (auto simp: select_backend_def Let_def dict_get_set split: option.splits)

lemma backend_request_capped:
  assumes "backend_request L E cm request = Inr r"
      and "startswith (model request) ''openai/'' \<or> startswith (model request) ''gemini/''"
  shows "dict_get r ''max_tokens'' = Some (PInt (min (max_tokens request) 16384))"
  using assms convert_max_tokens [of L request]
  by (auto simp: backend_request_def select_backend_max_tokens capped_max_tokens_def
           split: sum.splits)

text \<open>
  Claim C6.  A request whose model is a bare name, as the aliases hold it, is not
  capped: \<^verbatim>\<open>create_message\<close> finds the provider of \<^verbatim>\<open>gpt-4.1\<close>, an OpenAI-compatible
  one, and puts \<^verbatim>\<open>openai/\<close> before the model after the translator has decided on the cap.
  The request goes upstream with \<^verbatim>\<open>max_tokens = 50000\<close>.
\<close>

theorem max_tokens_not_capped:
  "backend_request L E sample_manager sample_request =
     Inr [(''model'', PStr ''openai/gpt-4.1''),
          (''messages'', PList [PDict [(''role'', PStr ''user''), (''content'', PStr ''hi'')]]),
          (''max_tokens'', PInt 50000),
          (''temperature'', PFloat 1),
          (''stream'', PBool False),
          (''api_key'', PStr ''sk-test''),
          (''api_base'', PStr ''https://api.openai.com/v1'')]"
  by (simp add: backend_request_def convert_anthropic_to_litellm_def sample_request_def
        sample_manager_def sample_provider_def ConfigManager_init_def load_default_preset_def
        convert_message_def role_str_def system_messages_def capped_max_tokens_def
        optional_entries_def stream_val_def select_backend_def dict_get_def opt_val_def)

section \<open>The streaming reconstructor\<close>

lemmas stream_defs = handle_streaming_def initial_stream_state_def chunk_step_def usage_step_def
  text_step_def close_text_block_def open_tool_block_def arguments_step_def finish_events_def
  closing_events_def stream_stop_reason_def error_events_def

text \<open>
  Claim C2, as the code has it.  For the fragments \<^verbatim>\<open>"Hello"\<close>, a tool call (backend index
  0, identifier \<^verbatim>\<open>call_1\<close>, name \<^verbatim>\<open>f\<close>, arguments \<^verbatim>\<open>{"a":1}\<close>) and the finish signal
  \<^verbatim>\<open>tool_calls\<close>, the generator yields, in this order: \<^verbatim>\<open>message_start\<close>,
  \<^verbatim>\<open>content_block_start\<close> (index 0, text), a keep-alive \<^verbatim>\<open>ping\<close>, \<^verbatim>\<open>content_block_delta\<close>
  (index 0, text \<^verbatim>\<open>Hello\<close>), \<^verbatim>\<open>content_block_stop\<close> (index 0), \<^verbatim>\<open>content_block_start\<close>
  (index 1, \<^verbatim>\<open>tool_use\<close> with that identifier and name), \<^verbatim>\<open>content_block_delta\<close> (index 1,
  \<^verbatim>\<open>input_json_delta\<close> with the partial JSON), \<^verbatim>\<open>content_block_stop\<close> (index 1),
  \<^verbatim>\<open>message_delta\<close> (stop reason \<^verbatim>\<open>tool_use\<close>, output tokens 0), \<^verbatim>\<open>message_stop\<close>, and the
  line \<^verbatim>\<open>data: [DONE]\<close>; and nothing else, whatever follows upstream.
\<close>

theorem streaming_scenario:
  "handle_streaming L request ([text_chunk, tool_chunk, finish_chunk] @ later) ending =
     [MessageStart (''msg_'' @ uuid4 L 0) (model request),
      ContentBlockStartText 0,
      Ping,
      TextDelta 0 ''Hello'',
      ContentBlockStop 0,
      ContentBlockStartToolUse 1 (Some ''call_1'') (Some ''f''),
      InputJsonDelta 1 ''{\"a\":1}'',
      ContentBlockStop 1,
      MessageDelta ''tool_use'' 0,
      MessageStop,
      Done]"
  by (simp add: stream_defs text_chunk_def tool_chunk_def finish_chunk_def)

text \<open>The claim as it was stated fails: the sequence without the \<^verbatim>\<open>ping\<close> is not what is
  sent.\<close>

theorem streaming_scenario_counterexample:
  "handle_streaming sample_lib sample_request [text_chunk, tool_chunk, finish_chunk] Exhausted \<noteq>
     [MessageStart ''msg_0000'' ''gpt-4.1'',
      ContentBlockStartText 0,
      TextDelta 0 ''Hello'',
      ContentBlockStop 0,
      ContentBlockStartToolUse 1 (Some ''call_1'') (Some ''f''),
      InputJsonDelta 1 ''{\"a\":1}'',
      ContentBlockStop 1,
      MessageDelta ''tool_use'' 0,
      MessageStop,
      Done]"
  by (simp add: stream_defs text_chunk_def tool_chunk_def finish_chunk_def)

text \<open>
  Claim C3.  When the stream ends with no finish signal after a tool call, the closing
  sequence sends \<^verbatim>\<open>content_block_stop\<close> for index 0 again, although the text block was
  closed when the tool call arrived: the branch for the finish signal tests
  \<open>text_block_closed\<close>, the closing sequence does not.
\<close>

theorem text_block_closed_twice:
  "handle_streaming L request [tool_chunk] Exhausted =
     [MessageStart (''msg_'' @ uuid4 L 0) (model request),
      ContentBlockStartText 0,
      Ping,
      ContentBlockStop 0,
      ContentBlockStartToolUse 1 (Some ''call_1'') (Some ''f''),
      InputJsonDelta 1 ''{\"a\":1}'',
      ContentBlockStop 1,
      ContentBlockStop 0,
      MessageDelta ''end_turn'' 0,
      MessageStop,
      Done]
   \<and> count_list (handle_streaming L request [tool_chunk] Exhausted) (ContentBlockStop 0) = 2"
  by (simp add: stream_defs tool_chunk_def)

text \<open>The rest of the claim holds.  In a stream that ends with a finish signal no block is
  stopped twice, and the chunks after the first finish signal send nothing: the
  generator has returned.\<close>

lemma stops_simps [simp]:
  "stops [] = []"
  "stops (ContentBlockStop i # evs) = i # stops evs"
  "stops (MessageStart a b # evs) = stops evs"
  "stops (ContentBlockStartText n # evs) = stops evs"
  "stops (ContentBlockStartToolUse n x y # evs) = stops evs"
  "stops (Ping # evs) = stops evs"
  "stops (TextDelta n t # evs) = stops evs"
  "stops (InputJsonDelta n t # evs) = stops evs"
  "stops (MessageDelta r k # evs) = stops evs"
  "stops (MessageStop # evs) = stops evs"
  "stops (Done # evs) = stops evs"
  by (simp_all add: stops_def List.map_filter_simps)

lemma stops_append [simp]: "stops (xs @ ys) = stops xs @ stops ys"
  by (simp add: stops_def List.map_filter_def)

lemma stops_map_stop [simp]: "stops (map ContentBlockStop ns) = ns"
  by (induction ns) simp_all

lemma text_step_stops:
  assumes "text_step s d = (s', ev)"
  shows "stops ev = [] \<and> text_block_closed s' = text_block_closed s
         \<and> tool_index s' = tool_index s \<and> has_sent_stop_reason s' = has_sent_stop_reason s"
  using assms by (auto simp: text_step_def Let_def split: option.splits if_splits)

lemma close_text_block_stops:
  assumes "close_text_block s = (s', ev)"
  shows "stops ev = (if tool_index s = None \<and> \<not> text_block_closed s then [0] else [])
         \<and> text_block_closed s' = (text_block_closed s \<or> tool_index s = None)
         \<and> tool_index s' = tool_index s"
  using assms by (auto simp: close_text_block_def split: if_splits)

lemma open_tool_block_stops:
  assumes "open_tool_block s tc = (s', ev)"
  shows "stops ev = [] \<and> text_block_closed s' = text_block_closed s"
  using assms by (auto simp: open_tool_block_def Let_def split: if_splits)

lemma arguments_step_stops:
  assumes "arguments_step L s tc = (s', ev, r)"
  shows "stops ev = [] \<and> text_block_closed s' = text_block_closed s
         \<and> tool_index s' = tool_index s"
  using assms
  by (auto simp: arguments_step_def split: option.splits tool_args.splits if_splits)

lemma tool_calls_loop_stops:
  assumes "tool_calls_loop L s tcs = (s', ev, r)"
  shows "stops ev = [] \<and> text_block_closed s' = text_block_closed s"
  using assms
proof (induction tcs arbitrary: s s' ev r)
  case Nil
  then show ?case by simp
next
  case (Cons tc tcs)
  obtain s1 ev1 where o: "open_tool_block s tc = (s1, ev1)" by (cases "open_tool_block s tc")
  obtain s2 ev2 r2 where a: "arguments_step L s1 tc = (s2, ev2, r2)"
    by (cases "arguments_step L s1 tc")
  obtain s3 ev3 r3 where l: "tool_calls_loop L s2 tcs = (s3, ev3, r3)"
    by (cases "tool_calls_loop L s2 tcs")
  from Cons.IH [OF l] open_tool_block_stops [OF o] arguments_step_stops [OF a] Cons.prems o a l
  show ?case by (auto split: if_splits)
qed

lemma finish_events_stops:
  "stops (finish_events s f) =
     (if tool_index s \<noteq> None then [1 ..< last_tool_index s + 1] else [])
     @ (if \<not> text_block_closed s then [0] else [])"
  by (simp add: finish_events_def)

lemma chunk_step_stops_all:
  assumes step: "chunk_step L s c = (s', ev, ret)" and inv: "closed_if_tools s"
  shows "closed_if_tools s' \<and>
     (\<not> ret \<longrightarrow> stops ev = [] \<or> stops ev = [0] \<and> \<not> text_block_closed s \<and> text_block_closed s') \<and>
     (\<not> ret \<longrightarrow> text_block_closed s \<longrightarrow> text_block_closed s') \<and>
     (ret \<longrightarrow> distinct (stops ev)) \<and> (ret \<longrightarrow> text_block_closed s \<longrightarrow> 0 \<notin> set (stops ev))"
proof -
  define s0 where "s0 = usage_step s (c_usage c)"
  have s0: "text_block_closed s0 = text_block_closed s" "tool_index s0 = tool_index s"
    by (simp_all add: s0_def usage_step_def split: option.splits prod.splits)
  show ?thesis
  proof (cases "c_choices c")
    case Nil
    with step inv s0 show ?thesis
      by (auto simp: chunk_step_def Let_def s0_def [symmetric] closed_if_tools_def)
  next
    case (Cons ch rest)
    obtain s1 ev1 where t: "text_step s0 (c_content ch) = (s1, ev1)"
      by (cases "text_step s0 (c_content ch)")
    note t1 = text_step_stops [OF t]
    obtain s3 ev3 raised where m:
      "(if c_tool_calls ch \<noteq> []
        then (case close_text_block s1 of (s2, ev2) \<Rightarrow>
              case tool_calls_loop L s2 (c_tool_calls ch) of (s3, ev3, raised) \<Rightarrow>
                (s3, ev2 @ ev3, raised))
        else (s1, [], False)) = (s3, ev3, raised)"
      by (metis prod_cases3)
    have mid: "closed_if_tools s3
             \<and> stops ev3 = (if text_block_closed s3 \<and> \<not> text_block_closed s then [0] else [])
             \<and> (text_block_closed s \<longrightarrow> text_block_closed s3)"
    proof (cases "c_tool_calls ch = []")
      case True
      with m t1 s0 inv show ?thesis by (auto simp: closed_if_tools_def)
    next
      case False
      obtain s2 ev2 where c2: "close_text_block s1 = (s2, ev2)"
        by (cases "close_text_block s1")
      obtain s3' ev3' r' where l: "tool_calls_loop L s2 (c_tool_calls ch) = (s3', ev3', r')"
        by (cases "tool_calls_loop L s2 (c_tool_calls ch)")
      note cl = close_text_block_stops [OF c2]
      note lp = tool_calls_loop_stops [OF l]
      have closed2: "text_block_closed s2"
        using cl t1 s0 inv by (auto simp: closed_if_tools_def)
      from False m c2 l have eq: "s3 = s3'" "ev3 = ev2 @ ev3'" by simp_all
      show ?thesis
        using eq cl lp t1 s0 inv closed2 by (auto simp: closed_if_tools_def)
    qed
    have res: "(s', ev, ret) =
        (if raised then (s3, ev1 @ ev3, False)
         else (case c_finish_reason ch of
                 None \<Rightarrow> (s3, ev1 @ ev3, False)
               | Some finish \<Rightarrow>
                   if finish \<noteq> [] \<and> \<not> has_sent_stop_reason s3
                   then (s3\<lparr>has_sent_stop_reason := True\<rparr>,
                         ev1 @ ev3 @ finish_events s3 finish, True)
                   else (s3, ev1 @ ev3, False)))"
      using step Cons t m by (simp add: chunk_step_def Let_def s0_def [symmetric])
    show ?thesis
      using res mid t1
      by (auto simp: closed_if_tools_def finish_events_stops split: if_splits option.splits)
  qed
qed

lemma chunk_step_stops:
  assumes "chunk_step L s c = (s', ev, ret)" and "closed_if_tools s"
  shows "closed_if_tools s'"
    and "\<not> ret \<Longrightarrow> stops ev = [] \<or> (stops ev = [0] \<and> \<not> text_block_closed s \<and> text_block_closed s')"
    and "\<not> ret \<Longrightarrow> text_block_closed s \<Longrightarrow> text_block_closed s'"
    and "ret \<Longrightarrow> distinct (stops ev)"
    and "ret \<Longrightarrow> text_block_closed s \<Longrightarrow> 0 \<notin> set (stops ev)"
  using chunk_step_stops_all [OF assms] by blast+

lemma process_chunks_stops:
  assumes "process_chunks L s cs = (s', ev, True)" and "closed_if_tools s"
  shows "distinct (stops ev) \<and> (text_block_closed s \<longrightarrow> 0 \<notin> set (stops ev))"
  using assms
proof (induction cs arbitrary: s s' ev)
  case Nil
  then show ?case by simp
next
  case (Cons c cs)
  obtain s1 ev1 r1 where c1: "chunk_step L s c = (s1, ev1, r1)"
    by (cases "chunk_step L s c")
  note cs = chunk_step_stops [OF c1 Cons.prems(2)]
  show ?case
  proof (cases r1)
    case True
    with Cons.prems(1) c1 have "ev = ev1" by simp
    with cs(4,5) True show ?thesis by simp
  next
    case False
    obtain s2 ev2 r2 where p2: "process_chunks L s1 cs = (s2, ev2, r2)"
      by (cases "process_chunks L s1 cs")
    with Cons.prems(1) c1 False have eq: "ev = ev1 @ ev2" and r2: "r2 = True" and "s' = s2"
      by simp_all
    from Cons.IH [OF p2 [unfolded r2] cs(1)]
    have ih: "distinct (stops ev2)" "text_block_closed s1 \<Longrightarrow> 0 \<notin> set (stops ev2)"
      by simp_all
    from cs(2) [OF False] show ?thesis
    proof
      assume "stops ev1 = []"
      with ih cs(3) [OF False] eq show ?thesis by auto
    next
      assume "stops ev1 = [0] \<and> \<not> text_block_closed s \<and> text_block_closed s1"
      with ih eq show ?thesis by auto
    qed
  qed
qed

lemma process_chunks_returned:
  assumes "process_chunks L s cs = (s', ev, True)"
  shows "process_chunks L s (cs @ later) = (s', ev, True)"
  using assms
proof (induction cs arbitrary: s s' ev)
  case Nil
  then show ?case by simp
next
  case (Cons c cs)
  obtain s1 ev1 r1 where c1: "chunk_step L s c = (s1, ev1, r1)"
    by (cases "chunk_step L s c")
  show ?case
  proof (cases r1)
    case True
    with Cons.prems c1 show ?thesis by simp
  next
    case False
    obtain s2 ev2 r2 where p2: "process_chunks L s1 cs = (s2, ev2, r2)"
      by (cases "process_chunks L s1 cs")
    with Cons.prems c1 False have "r2 = True" "s' = s2" "ev = ev1 @ ev2" by simp_all
    with Cons.IH [of s1 s2 ev2] p2 c1 False show ?thesis by simp
  qed
qed

lemma finished_stream_stops_once:
  assumes "process_chunks L initial_stream_state cs = (s, ev, True)"
  shows "distinct (stops (handle_streaming L request (cs @ later) ending))"
    and "handle_streaming L request (cs @ later) ending = handle_streaming L request cs Exhausted"
proof -
  have "closed_if_tools initial_stream_state"
    by (simp add: closed_if_tools_def initial_stream_state_def)
  from process_chunks_stops [OF assms this] have d: "distinct (stops ev)" by simp
  have h: "handle_streaming L request (cs @ later) ending =
        [MessageStart (''msg_'' @ uuid4 L 0) (model request), ContentBlockStartText 0, Ping] @ ev"
    by (simp add: handle_streaming_def process_chunks_returned [OF assms])
  show "distinct (stops (handle_streaming L request (cs @ later) ending))"
    using d by (simp add: h)
  show "handle_streaming L request (cs @ later) ending = handle_streaming L request cs Exhausted"
    unfolding h by (simp add: handle_streaming_def assms)
qed

section \<open>The response translator\<close>

lemma ebind_simps [simp]:
  "ebind (Inl e) f = Inl e"
  "ebind (Inr x) f = f x"
  by (simp_all add: ebind_def)

lemma ebind_eq_Inr: "ebind m f = Inr y \<longleftrightarrow> (\<exists>x. m = Inr x \<and> f x = Inr y)"
  by (cases m) simp_all

lemma validate_block_valid:
  "validate_block b = Inr x \<Longrightarrow> valid_block x"
  by (auto simp: validate_block_def split: pyval.splits if_splits option.splits)

lemma validate_blocks_valid:
  "validate_blocks bs = Inr xs \<Longrightarrow> list_all valid_block xs \<and> length xs = length bs"
proof (induction bs arbitrary: xs)
  case Nil
  then show ?case by simp
next
  case (Cons b bs)
  then show ?case by (auto simp: ebind_eq_Inr validate_block_valid)
qed

lemma content_of_nonempty: "content_of L x = Inr c \<Longrightarrow> c \<noteq> []"
  by (auto simp: content_of_def Let_def ebind_eq_Inr split: if_splits)

lemma map_stop_reason_cases:
  "map_stop_reason f = ''end_turn'' \<or> map_stop_reason f = ''max_tokens''
   \<or> map_stop_reason f = ''tool_use''"
  by (simp add: map_stop_reason_def)

lemma convert_body_valid:
  assumes "convert_body L resp req = Inr r"
  shows "valid_response r \<and> resp_model r = model req"
proof -
  from assms obtain x c u where
    c: "content_of L x = Inr c" and
    m: "MessagesResponse_new (response_id x) (model req) c (map_stop_reason (finish_reason x)) u = Inr r"
    by (auto simp: convert_body_def ebind_eq_Inr)
  from m obtain i blocks where
    v: "validate_blocks c = Inr blocks" and
    r: "r = \<lparr>resp_id = i, resp_model = model req, resp_role = ''assistant'',
              resp_content = blocks, resp_type = ''message'',
              stop_reason = Some (map_stop_reason (finish_reason x)), stop_sequence = None,
              resp_usage = u\<rparr>"
    by (auto simp: MessagesResponse_new_def ebind_eq_Inr split: pyval.splits)
  from validate_blocks_valid [OF v] content_of_nonempty [OF c]
  have "list_all valid_block blocks" "blocks \<noteq> []" by auto
  with r map_stop_reason_cases [of "finish_reason x"] show ?thesis
    by (auto simp: valid_response_def)
qed

lemma fallback_response_eq:
  "fallback_response L e req =
     Inr \<lparr>resp_id = ''msg_'' @ uuid4 L 1, resp_model = model req, resp_role = ''assistant'',
          resp_content = [ContentBlockText (''Error converting response: '' @ exc_str L e
                                             @ ''. Please check server logs.'')],
          resp_type = ''message'', stop_reason = Some ''end_turn'', stop_sequence = None,
          resp_usage = \<lparr>input_tokens = 0, output_tokens = 0,
                        cache_creation_input_tokens = 0, cache_read_input_tokens = 0\<rparr>\<rparr>"
  by (simp add: fallback_response_def Usage_new_def pydantic_int_def MessagesResponse_new_def
        validate_block_def dict_get_def)

text \<open>
  Claim C4.  For every backend response and every request, the response translator
  returns a reply and raises nothing: the reply has the role and type of a message, at
  least one content block, only text and \<^verbatim>\<open>tool_use\<close> blocks, one of the four stop
  reasons, and the model of the request.  Whenever the conversion fails with an
  exception \<open>e\<close>, the reply carries the error text as its single text block, the stop
  reason \<^verbatim>\<open>end_turn\<close>, and zero input and output tokens.
\<close>

theorem convert_litellm_to_anthropic_total:
  "\<exists>r. convert_litellm_to_anthropic L resp req = Inr r
       \<and> valid_response r \<and> resp_model r = model req
       \<and> (\<forall>e. convert_body L resp req = Inl e \<longrightarrow>
             resp_content r = [ContentBlockText (''Error converting response: '' @ exc_str L e
                                                  @ ''. Please check server logs.'')]
           \<and> stop_reason r = Some ''end_turn''
           \<and> input_tokens (resp_usage r) = 0 \<and> output_tokens (resp_usage r) = 0)"
proof (cases "convert_body L resp req")
  case (Inl e)
  then show ?thesis
    by (simp add: convert_litellm_to_anthropic_def fallback_response_eq valid_response_def)
next
  case (Inr r)
  with convert_body_valid [OF Inr] show ?thesis
    by (simp add: convert_litellm_to_anthropic_def)
qed

text \<open>At a concrete input: a backend reply whose message is \<^verbatim>\<open>null\<close>.\<close>

theorem convert_litellm_to_anthropic_total_witness:
  "convert_body sample_lib broken_response sample_request = Inl AttributeError
   \<and> (\<exists>r. convert_litellm_to_anthropic sample_lib broken_response sample_request = Inr r
          \<and> resp_content r = [ContentBlockText ''Error converting response: error. Please check server logs.'']
          \<and> stop_reason r = Some ''end_turn''
          \<and> input_tokens (resp_usage r) = 0 \<and> output_tokens (resp_usage r) = 0)"
proof -
  have b: "convert_body sample_lib broken_response sample_request = Inl AttributeError"
    by (simp add: convert_body_def extract_response_def extract_dict_def broken_response_def
          dict_get_def)
  from convert_litellm_to_anthropic_total [of sample_lib broken_response sample_request] b
  show ?thesis by (auto simp: sample_lib_def)
qed

section \<open>The round trip\<close>




















section \<open>The Gemini schema cleaner\<close>

text \<open>
  Claim C8.  The test \<^verbatim>\<open>schema["format"] not in allowed_formats\<close> hashes the format: on a
  dict of type string whose format is a list or a dict the cleaner raises \<^verbatim>\<open>TypeError\<close>
  and returns nothing, and so does the request translator for a Gemini model.
\<close>

theorem clean_gemini_schema_unhashable:
  "clean_gemini_schema (PDict odd_schema) = Inl TypeError
   \<and> convert_anthropic_to_litellm L gemini_request = Inl TypeError"
  by (simp add: odd_schema_def gemini_request_def sample_request_def pop_format_def
        dict_pop_def dict_get_def dict_has_def convert_anthropic_to_litellm_def
        convert_message_def convert_tool_def Let_def)

text \<open>On every other value the claim holds: the cleaner returns the value stripped as the
  specification says, and the stripped value holds no refused key at any depth.\<close>

lemma stripped_items_filter:
  "stripped_items flag d = stripped_values (filter (kept flag) d)"
  by (induction d) (auto simp: stripped_values_def kept_def)

lemma format_refused_pop:
  "format_refused (dict_pop ''default'' (dict_pop ''additionalProperties'' d)) = format_refused d"
  by (simp add: format_refused_def dict_get_pop)

lemma pop_format_result:
  assumes "pop_format d = Inr d'"
  shows "d' = (if format_refused d then dict_pop ''format'' d else d)"
  using assms
  by (auto simp: pop_format_def format_refused_def dict_has_get split: if_splits option.splits)

lemma pops_filter:
  "(if flag then dict_pop ''format'' (dict_pop ''default'' (dict_pop ''additionalProperties'' d))
    else dict_pop ''default'' (dict_pop ''additionalProperties'' d)) = filter (kept flag) d"
  by (induction d) (auto simp: dict_pop_def kept_def)

lemma pop_format_kept:
  assumes "pop_format (dict_pop ''default'' (dict_pop ''additionalProperties'' d)) = Inr d'"
  shows "d' = filter (kept (format_refused d)) d"
  using pop_format_result [OF assms] pops_filter [of "format_refused d" d]
  by (simp add: format_refused_pop)

lemma clean_refines_stripped:
  "clean_gemini_schema v = Inr r \<Longrightarrow> r = stripped v"
  "clean_items d = Inr rd \<Longrightarrow> rd = stripped_values d"
  "clean_elems xs = Inr rx \<Longrightarrow> rx = stripped_elems xs"
proof (induction v and d and xs arbitrary: r and rd and rx
       rule: clean_gemini_schema_clean_items_clean_elems.induct)
  case (1 d)
  from "1.prems" obtain d' r' where
    p: "pop_format (dict_pop ''default'' (dict_pop ''additionalProperties'' d)) = Inr d'"
    and c: "clean_items d' = Inr r'" and r: "r = PDict r'"
    by (auto split: sum.splits)
  from "1.IH" [OF p c] pop_format_kept [OF p] r show ?case
    by (simp add: stripped_items_filter)
next
  case (2 xs)
  then show ?case by (auto split: sum.splits)
next
  case (10 kv kvs)
  from "10.prems" obtain v' r' where
    a: "clean_gemini_schema (snd kv) = Inr v'" and b: "clean_items kvs = Inr r'"
    and r: "rd = (fst kv, v') # r'"
    by (auto split: sum.splits)
  from "10.IH"(1) [OF a] "10.IH"(2) [OF a b] r show ?case
    by (simp add: stripped_values_def)
next
  case (12 x xs)
  from "12.prems" obtain x' r' where
    a: "clean_gemini_schema x = Inr x'" and b: "clean_elems xs = Inr r'"
    and r: "rx = x' # r'"
    by (auto split: sum.splits)
  from "12.IH"(1) [OF a] "12.IH"(2) [OF a b] r show ?case by simp
qed (simp_all add: stripped_values_def)

lemma stripped_eq_PStr: "stripped v = PStr s \<longleftrightarrow> v = PStr s"
  by (cases v) auto

lemma dict_get_stripped_items:
  "dict_get (stripped_items flag d) k =
     (if k = ''additionalProperties'' \<or> k = ''default'' \<or> (flag \<and> k = ''format'') then None
      else map_option stripped (dict_get d k))"
  by (induction d) (auto simp: dict_get_def)

lemma format_refused_stripped:
  "\<not> format_refused (stripped_items (format_refused d) d)"
proof (cases "format_refused d")
  case True
  then show ?thesis by (simp add: format_refused_def dict_get_stripped_items)
next
  case False
  show ?thesis
  proof
    assume r: "format_refused (stripped_items (format_refused d) d)"
    from r False have t: "dict_get d ''type'' = Some (PStr ''string'')"
      by (auto simp: format_refused_def dict_get_stripped_items stripped_eq_PStr)
    from r False obtain f where f: "dict_get d ''format'' = Some f"
      by (auto simp: format_refused_def dict_get_stripped_items)
    from False t f have "f = PStr ''enum'' \<or> f = PStr ''date-time''"
      by (simp add: format_refused_def)
    with r False f show False
      by (auto simp: format_refused_def dict_get_stripped_items)
  qed
qed

lemma stripped_gemini_clean:
  "gemini_clean (stripped v)"
  "gemini_clean_items (stripped_items flag d)"
  "gemini_clean_elems (stripped_elems xs)"
proof (induction v and flag d and xs rule: stripped_stripped_items_stripped_elems.induct)
  case (1 d)
  then show ?case
    by (simp add: dict_has_get dict_get_stripped_items format_refused_stripped)
qed simp_all

lemma clean_error_is_TypeError:
  "clean_gemini_schema v = Inl e \<Longrightarrow> e = TypeError"
  "clean_items d = Inl e \<Longrightarrow> e = TypeError"
  "clean_elems xs = Inl e \<Longrightarrow> e = TypeError"
proof (induction v and d and xs rule: clean_gemini_schema_clean_items_clean_elems.induct)
  case (1 d)
  then show ?case
    by (auto simp: pop_format_def split: sum.splits if_splits option.splits)
qed (auto split: sum.splits)

lemma pop_format_raises:
  "(\<exists>e. pop_format d = Inl e) = format_unhashable d"
  by (auto simp: pop_format_def format_unhashable_def dict_has_get split: option.splits)

lemma format_unhashable_pop:
  "format_unhashable (dict_pop ''default'' (dict_pop ''additionalProperties'' d))
     = format_unhashable d"
  by (simp add: format_unhashable_def dict_get_pop)

lemma unhashable_format_items_filter:
  "unhashable_format_items flag d
     = list_ex (\<lambda>kv. unhashable_format (snd kv)) (filter (kept flag) d)"
  by (induction d) (auto simp: kept_def)

lemma clean_returns_iff:
  "(\<exists>r. clean_gemini_schema v = Inr r) = (\<not> unhashable_format v)"
  "(\<exists>r. clean_items d = Inr r) = (\<not> list_ex (\<lambda>kv. unhashable_format (snd kv)) d)"
  "(\<exists>r. clean_elems xs = Inr r) = (\<not> unhashable_format_elems xs)"
proof (induction v and d and xs rule: clean_gemini_schema_clean_items_clean_elems.induct)
  case (1 d)
  let ?d2 = "dict_pop ''default'' (dict_pop ''additionalProperties'' d)"
  show ?case
  proof (cases "pop_format ?d2")
    case (Inl e)
    with pop_format_raises [of ?d2] have "format_unhashable d"
      by (auto simp: format_unhashable_pop)
    with Inl show ?thesis by simp
  next
    case (Inr d')
    with pop_format_raises [of ?d2] have n: "\<not> format_unhashable d"
      by (auto simp: format_unhashable_pop)
    from "1.IH" [OF Inr] pop_format_kept [OF Inr] n Inr show ?thesis
      by (auto simp: unhashable_format_items_filter split: sum.splits)
  qed
next
  case (2 xs)
  then show ?case by (auto split: sum.splits)
next
  case (10 kv kvs)
  show ?case
  proof (cases "clean_gemini_schema (snd kv)")
    case (Inl e)
    with "10.IH"(1) show ?thesis by auto
  next
    case (Inr v')
    with "10.IH"(1) "10.IH"(2) [OF Inr] show ?thesis by (auto split: sum.splits)
  qed
next
  case (12 x xs)
  show ?case
  proof (cases "clean_gemini_schema x")
    case (Inl e)
    with "12.IH"(1) show ?thesis by auto
  next
    case (Inr x')
    with "12.IH"(1) "12.IH"(2) [OF Inr] show ?thesis by (auto split: sum.splits)
  qed
qed simp_all

text \<open>The cleaner, in full: it raises where a format is unhashable, and otherwise
  returns the stripped value, which holds no refused key.\<close>

lemma clean_gemini_schema_spec:
  "clean_gemini_schema v = (if unhashable_format v then Inl TypeError else Inr (stripped v))"
proof (cases "clean_gemini_schema v")
  case (Inl e)
  with clean_returns_iff(1) [of v] clean_error_is_TypeError(1) [of v e] show ?thesis by auto
next
  case (Inr r)
  with clean_returns_iff(1) [of v] clean_refines_stripped(1) [of v r] show ?thesis by auto
qed

end
